theory Spec2Isabelle
  imports Complex_Main "HOL-Library.Char_ord" "HOL-Library.List_Lexorder" "HOL-Library.AList" "HOL-Library.Multiset"
begin

section \<open>JavaScript strings\<close>

text \<open>
  A JavaScript string is modelled as a \<^typ>\<open>string\<close>: one \<^typ>\<open>char\<close> per UTF-16
  code unit. A \<^typ>\<open>char\<close> has 256 values, so the strings of the model are those whose
  code units lie in \<open>U+0000..U+00FF\<close>. On these code units \<open>toLowerCase\<close> maps
  \<open>A..Z\<close> and the capital letters \<open>U+00C0..U+00DE\<close>, without the multiplication sign
  \<open>U+00D7\<close>, to the letter 32 places further on, and leaves every other unit alone. The
  white space of \<open>trim\<close> and of the class \<open>\s\<close> is tab, line feed, vertical tab,
  form feed, carriage return, space and the no-break space \<open>U+00A0\<close>.
\<close>

definition asciiUpper :: string where
  "asciiUpper = ''ABCDEFGHIJKLMNOPQRSTUVWXYZ''"

definition asciiLower :: string where
  "asciiLower = ''abcdefghijklmnopqrstuvwxyz''"

definition latinUpper :: string where
  "latinUpper =
     [CHR 0xC0, CHR 0xC1, CHR 0xC2, CHR 0xC3, CHR 0xC4, CHR 0xC5, CHR 0xC6, CHR 0xC7,
      CHR 0xC8, CHR 0xC9, CHR 0xCA, CHR 0xCB, CHR 0xCC, CHR 0xCD, CHR 0xCE, CHR 0xCF,
      CHR 0xD0, CHR 0xD1, CHR 0xD2, CHR 0xD3, CHR 0xD4, CHR 0xD5, CHR 0xD6,
      CHR 0xD8, CHR 0xD9, CHR 0xDA, CHR 0xDB, CHR 0xDC, CHR 0xDD, CHR 0xDE]"

definition latinLower :: string where
  "latinLower =
     [CHR 0xE0, CHR 0xE1, CHR 0xE2, CHR 0xE3, CHR 0xE4, CHR 0xE5, CHR 0xE6, CHR 0xE7,
      CHR 0xE8, CHR 0xE9, CHR 0xEA, CHR 0xEB, CHR 0xEC, CHR 0xED, CHR 0xEE, CHR 0xEF,
      CHR 0xF0, CHR 0xF1, CHR 0xF2, CHR 0xF3, CHR 0xF4, CHR 0xF5, CHR 0xF6,
      CHR 0xF8, CHR 0xF9, CHR 0xFA, CHR 0xFB, CHR 0xFC, CHR 0xFD, CHR 0xFE]"

text \<open>
  \<open>digit7 c\<close> is the top bit of the code unit: it is set for the units
  \<open>U+0080..U+00FF\<close>, where the capital letters are those of \<open>latinUpper\<close>.
\<close>

definition lowerChar :: "char \<Rightarrow> char" where
  "lowerChar c =
     (case map_of (if digit7 c then zip latinUpper latinLower else zip asciiUpper asciiLower) c of
        Some d \<Rightarrow> d
      | None \<Rightarrow> c)"

definition toLowerCase :: "string \<Rightarrow> string" where
  "toLowerCase s = map lowerChar s"

fun startsWith :: "string \<Rightarrow> string \<Rightarrow> bool" where
  "startsWith s [] = True"
| "startsWith [] (c # cs) = False"
| "startsWith (x # xs) (c # cs) = (x = c \<and> startsWith xs cs)"

text \<open>\<open>s.includes(t)\<close>: \<open>t\<close> occurs in \<open>s\<close> as a contiguous run.\<close>

fun includesStr :: "string \<Rightarrow> string \<Rightarrow> bool" where
  "includesStr [] t = (t = [])"
| "includesStr (x # xs) t = (startsWith (x # xs) t \<or> includesStr xs t)"

definition isSpace :: "char \<Rightarrow> bool" where
  "isSpace c =
     (c \<in> set [CHR 0x09, CHR 0x0A, CHR 0x0B, CHR 0x0C, CHR 0x0D, CHR '' '', CHR 0xA0])"

definition trim :: "string \<Rightarrow> string" where
  "trim s = rev (dropWhile isSpace (rev (dropWhile isSpace s)))"

section \<open>ContentProcessor.determineComplianceLevel\<close>

datatype ComplianceLevel = Mandatory | Recommended | Optional

definition mandatoryIndicators :: "string list" where
  "mandatoryIndicators =
     [''must'', ''shall'', ''required'', ''mandatory'', ''obligation'',
      ''compulsory'', ''essential'', ''critical requirement'']"

definition recommendedIndicators :: "string list" where
  "recommendedIndicators =
     [''should'', ''recommended'', ''best practice'', ''advised'',
      ''suggested'', ''good practice'', ''guideline'']"

definition optionalIndicators :: "string list" where
  "optionalIndicators =
     [''may'', ''can'', ''optional'', ''consider'', ''might'',
      ''could'', ''possible'', ''alternative'']"

definition mandatoryCount :: "string \<Rightarrow> nat" where
  "mandatoryCount content =
     length (filter (\<lambda>term. includesStr (toLowerCase content) term) mandatoryIndicators)"

definition recommendedCount :: "string \<Rightarrow> nat" where
  "recommendedCount content =
     length (filter (\<lambda>term. includesStr (toLowerCase content) term) recommendedIndicators)"

definition optionalCount :: "string \<Rightarrow> nat" where
  "optionalCount content =
     length (filter (\<lambda>term. includesStr (toLowerCase content) term) optionalIndicators)"

definition determineComplianceLevel :: "string \<Rightarrow> ComplianceLevel option" where
  "determineComplianceLevel content =
     (if mandatoryCount content > recommendedCount content
         \<and> mandatoryCount content > optionalCount content then Some Mandatory
      else if recommendedCount content > optionalCount content then Some Recommended
      else if optionalCount content > 0 then Some Optional
      else None)"


section \<open>Further string operations\<close>

text \<open>
  \<open>s.split(re)\<close> for a regular expression \<open>[...]+\<close> over a character class: the pieces
  between the maximal runs of characters of the class. A run at the start or at the end
  leaves an empty piece there, and the empty string splits into one empty piece.
\<close>

fun splitRuns :: "(char \<Rightarrow> bool) \<Rightarrow> string \<Rightarrow> string list" where
  "splitRuns P [] = [[]]"
| "splitRuns P (c # cs) =
     (if P c then (if cs \<noteq> [] \<and> P (hd cs) then splitRuns P cs else [] # splitRuns P cs)
      else (case splitRuns P cs of
              [] \<Rightarrow> [[c]]
            | w # ws \<Rightarrow> (c # w) # ws))"

text \<open>\<open>s.split(' ')\<close>: every single separator character ends a piece.\<close>

fun splitChar :: "char \<Rightarrow> string \<Rightarrow> string list" where
  "splitChar d [] = [[]]"
| "splitChar d (c # cs) =
     (if c = d then [] # splitChar d cs
      else (case splitChar d cs of
              [] \<Rightarrow> [[c]]
            | w # ws \<Rightarrow> (c # w) # ws))"

text \<open>\<open>xs.join(sep)\<close>.\<close>

fun join :: "string \<Rightarrow> string list \<Rightarrow> string" where
  "join sep [] = []"
| "join sep [x] = x"
| "join sep (x # y # ys) = x @ sep @ join sep (y # ys)"

text \<open>\<open>s.substring(0, n)\<close>: a negative end is treated as 0.\<close>

definition substring0 :: "int \<Rightarrow> string \<Rightarrow> string" where
  "substring0 n s = take (nat n) s"

definition isAlnum :: "char \<Rightarrow> bool" where
  "isAlnum c =
     (c \<in> set ''abcdefghijklmnopqrstuvwxyzABCDEFGHIJKLMNOPQRSTUVWXYZ0123456789'')"

text \<open>The class \<open>\w\<close>.\<close>

definition isWordChar :: "char \<Rightarrow> bool" where
  "isWordChar c = (isAlnum c \<or> c = CHR ''_'')"

text \<open>
  A JavaScript \<open>Set\<close> of strings, in insertion order: \<open>add\<close> of a member changes
  nothing, and \<open>Array.from\<close> lists the members as they were first added.
\<close>

definition setAdd :: "string list \<Rightarrow> string \<Rightarrow> string list" where
  "setAdd xs x = (if x \<in> set xs then xs else xs @ [x])"

section \<open>The data model (types/standard.ts)\<close>

text \<open>A \<open>Date\<close> is identified with its ISO-8601 text.\<close>

type_synonym Date = string

record ScrapedPage =
  sp_url :: string
  sp_title :: string
  sp_content :: string
  sp_lastModified :: "Date option"
  sp_category :: string
  sp_sourceOrg :: "string option"
  sp_links :: "string list"

record Standard =
  id :: string
  title :: string
  category :: string
  url :: string
  content :: string
  summary :: "string option"
  lastUpdated :: "Date option"
  sourceOrg :: "string option"
  tags :: "string list"
  complianceLevel :: "ComplianceLevel option"
  relatedStandards :: "string list"
  createdAt :: Date
  updatedAt :: Date

text \<open>A score is a real number: the rounding of JavaScript's numbers is not modelled.\<close>

record SearchResult =
  standard :: Standard
  relevanceScore :: real
  matchedFields :: "string list"

section \<open>ContentProcessor\<close>

subsection \<open>generateStandardId\<close>

text \<open>
  Two functions of the platform are parameters of the model: \<open>pathname\<close> gives
  \<open>new URL(url).pathname\<close>, or \<open>None\<close> where the \<open>URL\<close> constructor throws, and
  \<open>md5Hex\<close> gives the hexadecimal MD5 digest of a string.
\<close>

definition generateStandardId ::
  "(string \<Rightarrow> string option) \<Rightarrow> (string \<Rightarrow> string) \<Rightarrow> string \<Rightarrow> string option" where
  "generateStandardId pathname md5Hex u =
     (case pathname u of
        None \<Rightarrow> None
      | Some urlPath \<Rightarrow>
          let p1 = (case urlPath of c # cs \<Rightarrow> (if c = CHR ''/'' then cs else urlPath) | [] \<Rightarrow> []);
              p2 = map (\<lambda>c. if c = CHR ''/'' then CHR ''-'' else c) p1;
              p3 = filter (\<lambda>c. isAlnum c \<or> c = CHR ''-'') p2;
              cleanPath = toLowerCase p3;
              hash = substring0 8 (md5Hex u)
          in Some (cleanPath @ ''-'' @ hash))"

subsection \<open>extractTags\<close>

definition technicalTerms :: "string list" where
  "technicalTerms =
     [''api'', ''rest'', ''soap'', ''graphql'', ''json'', ''xml'',
      ''oauth'', ''jwt'', ''https'', ''ssl'', ''tls'',
      ''gdpr'', ''data protection'', ''privacy'',
      ''cloud'', ''aws'', ''azure'', ''saas'', ''paas'', ''iaas'',
      ''security'', ''cyber security'', ''malware'', ''phishing'',
      ''accessibility'', ''wcag'', ''screen reader'',
      ''agile'', ''scrum'', ''devops'', ''ci/cd'',
      ''open source'', ''open data'', ''open standards'',
      ''docker'', ''kubernetes'', ''microservices'']"

definition govTerms :: "string list" where
  "govTerms =
     [''gds'', ''cabinet office'', ''ncsc'', ''hmrc'', ''dvla'',
      ''digital service standard'', ''government digital service'',
      ''public sector'', ''civil service'', ''whitehall'',
      ''transparency'', ''open government'', ''digital by default'']"

definition complianceTerms :: "string list" where
  "complianceTerms =
     [''iso 27001'', ''pci dss'', ''sox'', ''hipaa'',
      ''mandatory'', ''recommended'', ''optional'',
      ''compliance'', ''audit'', ''assessment'',
      ''risk management'', ''governance'']"

definition addTerms :: "string \<Rightarrow> string list \<Rightarrow> string list \<Rightarrow> string list" where
  "addTerms text terms ts =
     fold (\<lambda>term acc. if includesStr text term then setAdd acc term else acc) terms ts"

definition extractTags :: "string \<Rightarrow> string \<Rightarrow> string list" where
  "extractTags ttl cnt =
     (let text = toLowerCase (ttl @ '' '' @ cnt);
          t1 = addTerms text technicalTerms [];
          t2 = addTerms text govTerms t1;
          t3 = addTerms text complianceTerms t2
      in take 20 t3)"

subsection \<open>generateSummary\<close>

definition isSentenceEnd :: "char \<Rightarrow> bool" where
  "isSentenceEnd c = (c = CHR ''.'' \<or> c = CHR ''!'' \<or> c = CHR ''?'')"

definition keyTerms :: "string list" where
  "keyTerms =
     [''standard'', ''requirement'', ''must'', ''should'', ''guidance'',
      ''policy'', ''procedure'', ''compliance'', ''security'', ''api'',
      ''data'', ''service'', ''digital'', ''technology'', ''government'']"

definition sentenceScore :: "string \<Rightarrow> nat \<Rightarrow> int" where
  "sentenceScore sentence index =
     (let sentenceLower = toLowerCase sentence;
          s1 = max 0 (10 - int index);
          s2 = s1 + 2 * int (length (filter (\<lambda>term. includesStr sentenceLower term) keyTerms));
          words = length (splitChar CHR '' '' sentence)
      in if words \<ge> 10 \<and> words \<le> 30 then s2 + 3 else s2)"

definition scoredSentences :: "string list \<Rightarrow> (string \<times> int) list" where
  "scoredSentences sentences =
     map (\<lambda>(sentence, index). (trim sentence, sentenceScore sentence index))
         (zip sentences [0 ..< length sentences])"

text \<open>
  \<open>sort((a, b) => b.score - a.score)\<close> is a stable sort by falling score;
  \<^const>\<open>sort_key\<close> is a stable insertion sort by rising key.
\<close>

definition generateSummary :: "string \<Rightarrow> int \<Rightarrow> string" where
  "generateSummary cnt maxLength =
     (let sentences = filter (\<lambda>s. length (trim s) > 10) (splitRuns isSentenceEnd cnt)
      in if length sentences = 0 then []
         else
           let topSentences =
                 map fst (take 3 (sort_key (\<lambda>item. - snd item) (scoredSentences sentences)));
               summ = join ''. '' topSentences @ ''.''
           in if int (length summ) > maxLength
              then substring0 (maxLength - 3) summ @ ''...''
              else summ)"

subsection \<open>processScrapedPage\<close>

text \<open>
  \<open>now\<close> is the value of \<open>new Date()\<close> at the call. The result is \<open>None\<close> where
  \<open>generateStandardId\<close> throws.
\<close>

definition processScrapedPage ::
  "(string \<Rightarrow> string option) \<Rightarrow> (string \<Rightarrow> string) \<Rightarrow> Date \<Rightarrow> ScrapedPage \<Rightarrow> Standard option" where
  "processScrapedPage pathname md5Hex now scrapedPage =
     (case generateStandardId pathname md5Hex (sp_url scrapedPage) of
        None \<Rightarrow> None
      | Some i \<Rightarrow>
          Some \<lparr> id = i,
                 title = sp_title scrapedPage,
                 category = sp_category scrapedPage,
                 url = sp_url scrapedPage,
                 content = sp_content scrapedPage,
                 summary = Some (generateSummary (sp_content scrapedPage) 500),
                 lastUpdated = sp_lastModified scrapedPage,
                 sourceOrg = sp_sourceOrg scrapedPage,
                 tags = extractTags (sp_title scrapedPage) (sp_content scrapedPage),
                 complianceLevel = determineComplianceLevel (sp_content scrapedPage),
                 relatedStandards = [],
                 createdAt = now,
                 updatedAt = now \<rparr>)"

subsection \<open>findRelatedStandards\<close>

definition stopWords :: "string list" where
  "stopWords =
     [''this'', ''that'', ''with'', ''have'', ''will'', ''from'', ''they'', ''know'',
      ''want'', ''been'', ''good'', ''much'', ''some'', ''time'', ''very'', ''when'',
      ''come'', ''here'', ''just'', ''like'', ''long'', ''make'', ''many'', ''over'',
      ''such'', ''take'', ''than'', ''them'', ''well'', ''were'', ''government'']"

definition extractKeywords :: "string \<Rightarrow> string list" where
  "extractKeywords text =
     (let words = filter (\<lambda>word. length word > 3)
                    (map (\<lambda>word. toLowerCase (filter isWordChar word)) (splitRuns isSpace text))
      in filter (\<lambda>word. word \<notin> set stopWords) words)"

definition standardText :: "Standard \<Rightarrow> string" where
  "standardText s = toLowerCase (title s @ '' '' @ content s @ '' '' @ join '' '' (tags s))"

definition relatedStep :: "Standard \<Rightarrow> Standard \<Rightarrow> string list \<Rightarrow> string list" where
  "relatedStep s other related =
     (if id other = id s then related
      else
        let commonTags = filter (\<lambda>tag. tag \<in> set (tags other)) (tags s);
            r1 = (if length commonTags \<ge> 2 then setAdd related (id other) else related);
            r2 = (if category s = category other \<and> length r1 < 10
                  then setAdd r1 (id other) else r1);
            keywords = extractKeywords (standardText s);
            otherKeywords = extractKeywords (standardText other);
            commonKeywords = filter (\<lambda>kw. kw \<in> set otherKeywords) keywords
        in if length commonKeywords \<ge> 3 then setAdd r2 (id other) else r2)"

definition findRelatedStandards :: "Standard \<Rightarrow> Standard list \<Rightarrow> string list" where
  "findRelatedStandards s allStandards = take 10 (fold (relatedStep s) allStandards [])"

subsection \<open>validateStandard\<close>

text \<open>\<open>isValidUrl(url)\<close>: the \<open>URL\<close> constructor accepts the string.\<close>

definition isValidUrl :: "(string \<Rightarrow> string option) \<Rightarrow> string \<Rightarrow> bool" where
  "isValidUrl pathname u = (pathname u \<noteq> None)"

definition idMissing :: "Standard \<Rightarrow> bool" where
  "idMissing s = (id s = [] \<or> length (trim (id s)) = 0)"

definition titleMissing :: "Standard \<Rightarrow> bool" where
  "titleMissing s = (title s = [] \<or> length (trim (title s)) = 0)"

definition urlInvalid :: "(string \<Rightarrow> string option) \<Rightarrow> Standard \<Rightarrow> bool" where
  "urlInvalid pathname s = (url s = [] \<or> \<not> isValidUrl pathname (url s))"

definition contentTooShort :: "Standard \<Rightarrow> bool" where
  "contentTooShort s = (content s = [] \<or> length (trim (content s)) < 50)"

definition categoryMissing :: "Standard \<Rightarrow> bool" where
  "categoryMissing s = (category s = [] \<or> length (trim (category s)) = 0)"

record Validation =
  valid :: bool
  errors :: "string list"

definition validateStandard :: "(string \<Rightarrow> string option) \<Rightarrow> Standard \<Rightarrow> Validation" where
  "validateStandard pathname s =
     (let e0 = [];
          e1 = (if idMissing s then e0 @ [''Standard ID is required''] else e0);
          e2 = (if titleMissing s then e1 @ [''Standard title is required''] else e1);
          e3 = (if urlInvalid pathname s then e2 @ [''Valid URL is required''] else e2);
          e4 = (if contentTooShort s
                then e3 @ [''Standard content must be at least 50 characters long''] else e3);
          e5 = (if categoryMissing s then e4 @ [''Standard category is required''] else e4)
      in \<lparr> valid = (length e5 = 0), errors = e5 \<rparr>)"


section \<open>DatabaseManager: the primary tables\<close>

text \<open>
  The tables \<open>standards\<close> and \<open>categories\<close> of \<open>schema.sql\<close>, as lists of rows in
  insertion order. A \<open>NULL\<close> is \<open>None\<close>. The \<open>CHECK\<close> on \<open>compliance_level\<close> admits
  the three levels only, so the column holds a \<^typ>\<open>ComplianceLevel option\<close>.

  The store also holds the full-text index \<open>standards_fts\<close>: the list of the entries
  written to it, each with the values of the five columns it indexes. The semantic
  index belongs to an external service and is no part of this state.
\<close>

record Row =
  r_id :: string
  r_title :: string
  r_category :: string
  r_url :: string
  r_content :: string
  r_summary :: "string option"
  r_last_updated :: "string option"
  r_source_org :: "string option"
  r_tags :: "string option"
  r_compliance_level :: "ComplianceLevel option"
  r_related_standards :: "string option"
  r_created_at :: string
  r_updated_at :: string

record CategoryRow =
  c_name :: string
  c_description :: "string option"
  c_standards_count :: nat
  c_created_at :: string

record FtsEntry =
  f_id :: string
  f_title :: string
  f_content :: string
  f_summary :: "string option"
  f_tags :: "string option"

record Store =
  standards :: "Row list"
  categories :: "CategoryRow list"
  fts_index :: "FtsEntry list"

datatype error = SyntaxError | TypeError | DbError string | VectorError string

subsection \<open>JSON.stringify of an array of strings\<close>

definition hexDigit :: "nat \<Rightarrow> char" where
  "hexDigit n = ''0123456789abcdef'' ! (n mod 16)"

definition jsonEscape :: "char \<Rightarrow> string" where
  "jsonEscape c =
     (if c = CHR 0x22 then [CHR 0x5C, CHR 0x22]
      else if c = CHR 0x5C then [CHR 0x5C, CHR 0x5C]
      else if c = CHR 0x08 then [CHR 0x5C, CHR ''b'']
      else if c = CHR 0x09 then [CHR 0x5C, CHR ''t'']
      else if c = CHR 0x0A then [CHR 0x5C, CHR ''n'']
      else if c = CHR 0x0C then [CHR 0x5C, CHR ''f'']
      else if c = CHR 0x0D then [CHR 0x5C, CHR ''r'']
      else if (of_char c :: nat) < 32
        then [CHR 0x5C, CHR ''u'', CHR ''0'', CHR ''0'',
              hexDigit (of_char c div 16), hexDigit (of_char c)]
      else [c])"

definition jsonQuote :: "string \<Rightarrow> string" where
  "jsonQuote s = [CHR 0x22] @ concat (map jsonEscape s) @ [CHR 0x22]"

definition jsonStringify :: "string list \<Rightarrow> string" where
  "jsonStringify xs = ''['' @ join '','' (map jsonQuote xs) @ '']''"

subsection \<open>insertStandard\<close>

text \<open>\<open>x || null\<close> on an optional string: the empty string is falsy.\<close>

definition orNull :: "string option \<Rightarrow> string option" where
  "orNull x = (case x of None \<Rightarrow> None | Some v \<Rightarrow> (if v = [] then None else Some v))"

text \<open>
  \<open>INSERT OR REPLACE INTO standards\<close>: the rows that clash with the new one on the
  primary key \<open>id\<close> or on the unique column \<open>url\<close> are deleted, then the new row is
  added. The statement names neither \<open>created_at\<close> nor \<open>updated_at\<close>, so both take
  the default \<open>CURRENT_TIMESTAMP\<close>, the parameter \<open>now\<close>.
\<close>

definition standardToRow :: "Date \<Rightarrow> Standard \<Rightarrow> Row" where
  "standardToRow now s =
     \<lparr> r_id = id s,
       r_title = title s,
       r_category = category s,
       r_url = url s,
       r_content = content s,
       r_summary = orNull (summary s),
       r_last_updated = lastUpdated s,
       r_source_org = orNull (sourceOrg s),
       r_tags = Some (jsonStringify (tags s)),
       r_compliance_level = complianceLevel s,
       r_related_standards = Some (jsonStringify (relatedStandards s)),
       r_created_at = now,
       r_updated_at = now \<rparr>"

definition insertOrReplaceStandard :: "Row \<Rightarrow> Row list \<Rightarrow> Row list" where
  "insertOrReplaceStandard row rows =
     filter (\<lambda>r. r_id r \<noteq> r_id row \<and> r_url r \<noteq> r_url row) rows @ [row]"

text \<open>
  \<open>updateCategoryCount\<close>: \<open>INSERT OR REPLACE INTO categories (name, standards_count)\<close>
  with the live count of the category.
\<close>

definition updateCategoryCount :: "Date \<Rightarrow> string \<Rightarrow> Store \<Rightarrow> Store" where
  "updateCategoryCount now cat st =
     st \<lparr> categories :=
            filter (\<lambda>c. c_name c \<noteq> cat) (categories st)
            @ [\<lparr> c_name = cat,
                 c_description = None,
                 c_standards_count = length (filter (\<lambda>r. r_category r = cat) (standards st)),
                 c_created_at = now \<rparr>] \<rparr>"

text \<open>
  The entry that the trigger \<open>standards_fts_insert\<close> writes for a new row:
  \<open>INSERT INTO standards_fts(id, title, content, summary, tags)\<close>.
\<close>

definition ftsEntry :: "Row \<Rightarrow> FtsEntry" where
  "ftsEntry row =
     \<lparr> f_id = r_id row, f_title = r_title row, f_content = r_content row,
       f_summary = r_summary row, f_tags = r_tags row \<rparr>"

text \<open>
  \<open>insertStandard\<close> runs the \<open>INSERT OR REPLACE\<close>, which fires the triggers of
  \<open>schema.sql\<close>, and then \<open>updateCategoryCount\<close>. After the insert the trigger
  \<open>standards_fts_insert\<close> adds the entry of the new row to the index. For the rows that
  \<open>REPLACE\<close> deletes, SQLite fires the delete trigger only when \<open>recursive_triggers\<close>
  is on; \<open>configureDatabaseSettings\<close> sets \<open>journal_mode\<close>, \<open>busy_timeout\<close>,
  \<open>foreign_keys\<close> and \<open>synchronous\<close> and leaves it off, so \<open>standards_fts_delete\<close>
  does not run and the entries of the replaced rows stay in the index.
\<close>

definition insertStandard :: "Date \<Rightarrow> Standard \<Rightarrow> Store \<Rightarrow> Store" where
  "insertStandard now s st =
     updateCategoryCount now (category s)
       (st \<lparr> standards := insertOrReplaceStandard (standardToRow now s) (standards st),
             fts_index := fts_index st @ [ftsEntry (standardToRow now s)] \<rparr>)"

subsection \<open>rowToStandard\<close>

text \<open>
  \<open>jsonParse\<close> is the platform's \<open>JSON.parse\<close> on the text of an array of strings;
  \<open>None\<close> where it throws.
\<close>

definition parseArrayColumn ::
  "(string \<Rightarrow> string list option) \<Rightarrow> string option \<Rightarrow> error + string list" where
  "parseArrayColumn jsonParse col =
     (case col of
        None \<Rightarrow> Inr []
      | Some t \<Rightarrow>
          if t = [] then Inr []
          else (case jsonParse t of None \<Rightarrow> Inl SyntaxError | Some xs \<Rightarrow> Inr xs))"

definition rowToStandard :: "(string \<Rightarrow> string list option) \<Rightarrow> Row \<Rightarrow> error + Standard" where
  "rowToStandard jsonParse row =
     (case parseArrayColumn jsonParse (r_tags row) of
        Inl e \<Rightarrow> Inl e
      | Inr ts \<Rightarrow>
          (case parseArrayColumn jsonParse (r_related_standards row) of
             Inl e \<Rightarrow> Inl e
           | Inr rs \<Rightarrow>
               Inr \<lparr> id = r_id row,
                     title = r_title row,
                     category = r_category row,
                     url = r_url row,
                     content = r_content row,
                     summary = orNull (r_summary row),
                     lastUpdated = orNull (r_last_updated row),
                     sourceOrg = orNull (r_source_org row),
                     tags = ts,
                     complianceLevel = r_compliance_level row,
                     relatedStandards = rs,
                     createdAt = r_created_at row,
                     updatedAt = r_updated_at row \<rparr>))"

text \<open>\<open>rows.map(f)\<close> where \<open>f\<close> may throw: the first failure ends the map.\<close>

fun mapE :: "('a \<Rightarrow> error + 'b) \<Rightarrow> 'a list \<Rightarrow> error + 'b list" where
  "mapE f [] = Inr []"
| "mapE f (x # xs) =
     (case f x of
        Inl e \<Rightarrow> Inl e
      | Inr y \<Rightarrow> (case mapE f xs of Inl e \<Rightarrow> Inl e | Inr ys \<Rightarrow> Inr (y # ys)))"

subsection \<open>searchStandards\<close>

text \<open>
  The full-text engine is a parameter: \<open>ftsError q\<close> is the message of the error the
  engine raises on the \<open>MATCH\<close> expression \<open>q\<close> (\<open>None\<close> when it accepts it),
  \<open>ftsMatch q r\<close> says whether the indexed row \<open>r\<close> matches, and \<open>bm25 q r\<close> is its
  raw rank. The search reads the table \<open>standards\<close> and asks the engine about each
  row: the index is taken to be in step with the table, so the join yields one result
  row for each matching row of \<open>standards\<close>.
\<close>

record FtsEngine =
  ftsError :: "string \<Rightarrow> string option"
  ftsMatch :: "string \<Rightarrow> Row \<Rightarrow> bool"
  bm25 :: "string \<Rightarrow> Row \<Rightarrow> real"

text \<open>\<open>if (x)\<close> on an optional string argument.\<close>

definition truthy :: "string option \<Rightarrow> bool" where
  "truthy x = (case x of None \<Rightarrow> False | Some v \<Rightarrow> v \<noteq> [])"

definition filterConditions :: "string option \<Rightarrow> string option \<Rightarrow> (Row \<Rightarrow> bool) list" where
  "filterConditions cat org =
     (if truthy cat then [\<lambda>r. Some (r_category r) = cat] else [])
     @ (if truthy org then [\<lambda>r. r_source_org r = org] else [])"

definition holdsAll :: "(Row \<Rightarrow> bool) list \<Rightarrow> Row \<Rightarrow> bool" where
  "holdsAll conds r = list_all (\<lambda>c. c r) conds"

text \<open>\<open>row.col && row.col.toLowerCase().includes(q)\<close> on a nullable column.\<close>

definition columnIncludes :: "string option \<Rightarrow> string \<Rightarrow> bool" where
  "columnIncludes col q =
     (case col of None \<Rightarrow> False | Some v \<Rightarrow> v \<noteq> [] \<and> includesStr (toLowerCase v) q)"

definition getMatchedFields :: "Row \<Rightarrow> string \<Rightarrow> string list" where
  "getMatchedFields row query =
     (let queryLower = toLowerCase query;
          f0 = [];
          f1 = (if includesStr (toLowerCase (r_title row)) queryLower
                then f0 @ [''title''] else f0);
          f2 = (if includesStr (toLowerCase (r_content row)) queryLower
                then f1 @ [''content''] else f1);
          f3 = (if columnIncludes (r_summary row) queryLower then f2 @ [''summary''] else f2);
          f4 = (if columnIncludes (r_tags row) queryLower then f3 @ [''tags''] else f3)
      in f4)"

definition emptyQuery :: "string \<Rightarrow> bool" where
  "emptyQuery query = (query = [] \<or> trim query = [])"

definition searchStandards ::
  "FtsEngine \<Rightarrow> (string \<Rightarrow> string list option) \<Rightarrow> Store
     \<Rightarrow> string \<Rightarrow> string option \<Rightarrow> string option \<Rightarrow> error + SearchResult list" where
  "searchStandards eng jsonParse st query cat org =
     (if emptyQuery query then
        let rows = sort_key r_title (filter (holdsAll (filterConditions cat org)) (standards st))
        in mapE (\<lambda>row. case rowToStandard jsonParse row of
                          Inl e \<Rightarrow> Inl e
                        | Inr s \<Rightarrow> Inr \<lparr> standard = s, relevanceScore = 1, matchedFields = [] \<rparr>)
                rows
      else
        (case ftsError eng query of
           Some msg \<Rightarrow> Inl (DbError msg)
         | None \<Rightarrow>
             let rows = sort_key (bm25 eng query)
                          (filter (\<lambda>r. ftsMatch eng query r \<and> holdsAll (filterConditions cat org) r)
                                  (standards st))
             in mapE (\<lambda>row. case rowToStandard jsonParse row of
                               Inl e \<Rightarrow> Inl e
                             | Inr s \<Rightarrow> Inr \<lparr> standard = s,
                                               relevanceScore = \<bar>bm25 eng query row\<bar>,
                                               matchedFields = getMatchedFields row query \<rparr>)
                     rows))"


subsection \<open>hybridSearch\<close>

record Metadata =
  m_title :: string
  m_category :: string
  m_sourceOrg :: string
  m_complianceLevel :: string
  m_url :: string
  m_tags :: string
  m_lastUpdated :: string
  m_createdAt :: string

text \<open>An entry of the semantic index's answer; the metadata may be \<open>null\<close>.\<close>

record VectorResult =
  v_id :: string
  v_score :: real
  v_metadata :: "Metadata option"
  v_document :: string

record SemanticOptions =
  so_limit :: int
  so_category :: "string option"
  so_sourceOrg :: "string option"
  so_threshold :: real

record HybridOptions =
  semanticWeight :: "real option"
  semanticThreshold :: "real option"
  maxResults :: "int option"

text \<open>
  The metadata holds the compliance level as text, empty when there is none. A text
  that names none of the three levels gives no level here.
\<close>

definition levelOfString :: "string \<Rightarrow> ComplianceLevel option" where
  "levelOfString t =
     (if t = ''mandatory'' then Some Mandatory
      else if t = ''recommended'' then Some Recommended
      else if t = ''optional'' then Some Optional
      else None)"

text \<open>
  The \<open>Map\<close> of combined results is an association list in insertion order;
  \<^const>\<open>AList.update\<close> replaces the value of a key where it stands and puts a new key
  at the end, as \<open>Map.set\<close> does.
\<close>

definition scaleResult :: "real \<Rightarrow> SearchResult \<Rightarrow> SearchResult" where
  "scaleResult w r = r \<lparr> relevanceScore := relevanceScore r * (1 - w) \<rparr>"

definition addFts ::
  "real \<Rightarrow> SearchResult \<Rightarrow> (string \<times> SearchResult) list \<Rightarrow> (string \<times> SearchResult) list" where
  "addFts w r combined = AList.update (id (standard r)) (scaleResult w r) combined"

text \<open>
  The standard made from the metadata of a semantic result. Reading a property of a
  \<open>null\<close> metadata throws a \<open>TypeError\<close>, and \<open>JSON.parse\<close> of the tags may throw.
\<close>

definition synthesize :: "(string \<Rightarrow> string list option) \<Rightarrow> VectorResult \<Rightarrow> error + Standard" where
  "synthesize jsonParse v =
     (case v_metadata v of
        None \<Rightarrow> Inl TypeError
      | Some m \<Rightarrow>
          (case parseArrayColumn jsonParse (Some (m_tags m)) of
             Inl e \<Rightarrow> Inl e
           | Inr ts \<Rightarrow>
               Inr \<lparr> id = v_id v,
                     title = m_title m,
                     category = m_category m,
                     url = m_url m,
                     content = substring0 500 (v_document v) @ ''...'',
                     summary = None,
                     lastUpdated = orNull (Some (m_lastUpdated m)),
                     sourceOrg = orNull (Some (m_sourceOrg m)),
                     tags = ts,
                     complianceLevel = levelOfString (m_complianceLevel m),
                     relatedStandards = [],
                     createdAt = m_createdAt m,
                     updatedAt = m_createdAt m \<rparr>))"

definition addVector ::
  "real \<Rightarrow> (string \<Rightarrow> string list option) \<Rightarrow> (string \<times> SearchResult) list \<Rightarrow> VectorResult
     \<Rightarrow> error + (string \<times> SearchResult) list" where
  "addVector w jsonParse combined v =
     (case map_of combined (v_id v) of
        Some existingResult \<Rightarrow>
          Inr (AList.update (v_id v)
                 (existingResult
                    \<lparr> relevanceScore := relevanceScore existingResult + v_score v * w,
                      matchedFields := matchedFields existingResult @ [''semantic''] \<rparr>)
                 combined)
      | None \<Rightarrow>
          (case synthesize jsonParse v of
             Inl e \<Rightarrow> Inl e
           | Inr s \<Rightarrow>
               Inr (AList.update (v_id v)
                      \<lparr> standard = s,
                        relevanceScore = v_score v * w,
                        matchedFields = [''semantic''] \<rparr>
                      combined)))"

text \<open>\<open>xs.forEach(f)\<close> on a state, where \<open>f\<close> may throw.\<close>

fun foldE :: "('s \<Rightarrow> 'a \<Rightarrow> error + 's) \<Rightarrow> 's \<Rightarrow> 'a list \<Rightarrow> error + 's" where
  "foldE f s [] = Inr s"
| "foldE f s (x # xs) = (case f s x of Inl e \<Rightarrow> Inl e | Inr s' \<Rightarrow> foldE f s' xs)"

definition fuse ::
  "real \<Rightarrow> (string \<Rightarrow> string list option) \<Rightarrow> SearchResult list \<Rightarrow> VectorResult list
     \<Rightarrow> error + (string \<times> SearchResult) list" where
  "fuse w jsonParse ftsResults vectorResults =
     foldE (addVector w jsonParse) (fold (addFts w) ftsResults []) vectorResults"

text \<open>\<open>xs.slice(0, n)\<close>: a negative \<open>n\<close> counts from the end.\<close>

definition slice0 :: "int \<Rightarrow> 'a list \<Rightarrow> 'a list" where
  "slice0 n xs = (if n < 0 then take (nat (int (length xs) + n)) xs else take (nat n) xs)"

definition sortByScoreDesc :: "SearchResult list \<Rightarrow> SearchResult list" where
  "sortByScoreDesc rs = sort_key (\<lambda>r. - relevanceScore r) rs"

text \<open>
  \<open>semanticSearch\<close> is the call into the semantic index, \<open>Inl\<close> where it throws. The
  store does not change between the search and the fallback search of the outer
  \<open>catch\<close>.
\<close>

text \<open>The options of \<open>hybridSearch\<close>, with the defaults of its destructuring.\<close>

definition weightOf :: "HybridOptions \<Rightarrow> real" where
  "weightOf options = (case semanticWeight options of None \<Rightarrow> 0.6 | Some x \<Rightarrow> x)"

definition thresholdOf :: "HybridOptions \<Rightarrow> real" where
  "thresholdOf options = (case semanticThreshold options of None \<Rightarrow> 0.3 | Some x \<Rightarrow> x)"

definition maxResultsOf :: "HybridOptions \<Rightarrow> int" where
  "maxResultsOf options = (case maxResults options of None \<Rightarrow> 20 | Some x \<Rightarrow> x)"

definition semanticOptions :: "string option \<Rightarrow> string option \<Rightarrow> HybridOptions \<Rightarrow> SemanticOptions" where
  "semanticOptions cat org options =
     \<lparr> so_limit = maxResultsOf options, so_category = cat,
       so_sourceOrg = org, so_threshold = thresholdOf options \<rparr>"

definition hybridSearch ::
  "FtsEngine \<Rightarrow> (string \<Rightarrow> string list option)
     \<Rightarrow> (string \<Rightarrow> SemanticOptions \<Rightarrow> error + VectorResult list) \<Rightarrow> Store
     \<Rightarrow> string \<Rightarrow> string option \<Rightarrow> string option \<Rightarrow> HybridOptions
     \<Rightarrow> error + SearchResult list" where
  "hybridSearch eng jsonParse semanticSearch st query cat org options =
     (case searchStandards eng jsonParse st query cat org of
        Inl e \<Rightarrow> searchStandards eng jsonParse st query cat org
      | Inr ftsResults \<Rightarrow>
          let vectorResults =
                (case semanticSearch query (semanticOptions cat org options) of
                   Inl e \<Rightarrow> []
                 | Inr vs \<Rightarrow> vs)
          in case fuse (weightOf options) jsonParse ftsResults vectorResults of
               Inl e \<Rightarrow> searchStandards eng jsonParse st query cat org
             | Inr combined \<Rightarrow>
                 Inr (slice0 (maxResultsOf options) (sortByScoreDesc (map snd combined))))"

section \<open>DatabaseManager: queries on a failing engine\<close>











subsection \<open>The database behind the connection\<close>






section \<open>Example data, from the repository's tests\<close>

text \<open>
  The values of the platform functions on the URLs of \<open>content-processor.test.ts\<close>:
  the path the \<open>URL\<close> constructor gives, and the MD5 digest.
\<close>

definition testPathname :: "string \<Rightarrow> string option" where
  "testPathname u =
     (if u = ''https://www.gov.uk/guidance/gds-api-technical-and-data-standards''
      then Some ''/guidance/gds-api-technical-and-data-standards''
      else if u = ''https://www.gov.uk/valid-standard'' then Some ''/valid-standard''
      else None)"

definition testMd5Hex :: "string \<Rightarrow> string" where
  "testMd5Hex u =
     (if u = ''https://www.gov.uk/guidance/gds-api-technical-and-data-standards''
      then ''409bf36deda6b6494441121cc1c99e27''
      else if u = ''https://www.gov.uk/valid-standard''
      then ''29ff5e32b48b060deb0bc3fcdac054d3''
      else [])"

definition testDate :: Date where
  "testDate = ''2024-01-01T00:00:00.000Z''"

definition laterDate :: Date where
  "laterDate = ''2024-02-01T00:00:00.000Z''"

definition mockScrapedPage :: ScrapedPage where
  "mockScrapedPage =
     \<lparr> sp_url = ''https://www.gov.uk/guidance/gds-api-technical-and-data-standards'',
       sp_title = ''GDS API technical and data standards'',
       sp_content = ''This guidance explains the technical standards for APIs in government. APIs must use HTTPS and should implement OAuth 2.0 for authentication. All APIs should follow REST principles and return JSON responses.'',
       sp_lastModified = None,
       sp_category = ''APIs'',
       sp_sourceOrg = Some ''GDS'',
       sp_links = [] \<rparr>"

definition validStandard :: Standard where
  "validStandard =
     \<lparr> id = ''valid-standard-1'',
       title = ''Valid Standard'',
       category = ''APIs'',
       url = ''https://www.gov.uk/valid-standard'',
       content = ''This is a valid standard with sufficient content to pass validation requirements and provide meaningful guidance.'',
       summary = None,
       lastUpdated = None,
       sourceOrg = None,
       tags = [''api''],
       complianceLevel = None,
       relatedStandards = [],
       createdAt = testDate,
       updatedAt = testDate \<rparr>"

text \<open>The standard of the test \<open>should accumulate multiple validation errors\<close>.\<close>

definition invalidStandard :: Standard where
  "invalidStandard = validStandard \<lparr> id := [], title := [], url := ''invalid'' \<rparr>"

text \<open>A standard whose content is ten characters of text after forty spaces.\<close>

definition paddedStandard :: Standard where
  "paddedStandard = validStandard \<lparr> content := replicate 40 CHR '' '' @ ''Use HTTPS.'' \<rparr>"

text \<open>A standard whose content is 49 letters and a no-break space.\<close>

definition nbspStandard :: Standard where
  "nbspStandard = validStandard \<lparr> content := replicate 49 CHR ''a'' @ [CHR 0xA0] \<rparr>"

text \<open>The two standards of \<open>database.test.ts\<close>, and the store that holds them.\<close>

definition apiSecurityStandard :: Standard where
  "apiSecurityStandard =
     \<lparr> id = ''api-security-1'',
       title = ''API Security Guidelines'',
       category = ''APIs'',
       url = ''https://www.gov.uk/api-security'',
       content = ''Guidelines for securing REST APIs using OAuth 2.0 and JWT tokens.'',
       summary = Some ''Security guidelines for APIs'',
       lastUpdated = None,
       sourceOrg = Some ''GDS'',
       tags = [''api'', ''security'', ''oauth'', ''jwt''],
       complianceLevel = Some Mandatory,
       relatedStandards = [],
       createdAt = testDate,
       updatedAt = testDate \<rparr>"

definition wcagStandard :: Standard where
  "wcagStandard =
     \<lparr> id = ''accessibility-wcag-1'',
       title = ''WCAG 2.1 Compliance Standard'',
       category = ''Accessibility'',
       url = ''https://www.gov.uk/wcag-compliance'',
       content = ''Requirements for meeting WCAG 2.1 Level AA accessibility standards.'',
       summary = Some ''WCAG compliance requirements'',
       lastUpdated = None,
       sourceOrg = Some ''GDS'',
       tags = [''accessibility'', ''wcag'', ''compliance''],
       complianceLevel = Some Mandatory,
       relatedStandards = [],
       createdAt = testDate,
       updatedAt = testDate \<rparr>"

definition emptyStore :: Store where
  "emptyStore = \<lparr> standards = [], categories = [], fts_index = [] \<rparr>"

definition testStore :: Store where
  "testStore =
     insertStandard testDate wcagStandard (insertStandard testDate apiSecurityStandard emptyStore)"

text \<open>\<open>JSON.parse\<close> on the array texts that occur in the examples.\<close>

definition testJsonParse :: "string \<Rightarrow> string list option" where
  "testJsonParse t =
     find (\<lambda>xs. jsonStringify xs = t)
       [[], [''api''], [''api'', ''security'', ''oauth'', ''jwt''],
        [''accessibility'', ''wcag'', ''compliance'']]"

text \<open>
  A small full-text engine for the examples. It accepts every query; a row matches when
  each token of the query occurs in one of the indexed columns, ignoring case; the raw
  rank is minus the number of occurrences of a token in a column.
\<close>

definition indexedColumns :: "Row \<Rightarrow> string list" where
  "indexedColumns r =
     map toLowerCase
       [r_title r, r_content r,
        (case r_summary r of None \<Rightarrow> [] | Some v \<Rightarrow> v),
        (case r_tags r of None \<Rightarrow> [] | Some v \<Rightarrow> v)]"

definition queryTokens :: "string \<Rightarrow> string list" where
  "queryTokens q = filter (\<lambda>t. t \<noteq> []) (splitRuns isSpace (toLowerCase q))"

definition tokenEngine :: FtsEngine where
  "tokenEngine =
     \<lparr> ftsError = (\<lambda>q. None),
       ftsMatch = (\<lambda>q r. list_all (\<lambda>t. list_ex (\<lambda>c. includesStr c t) (indexedColumns r))
                                    (queryTokens q)),
       bm25 = (\<lambda>q r. - real (length (filter (\<lambda>(t, c). includesStr c t)
                                              (List.product (queryTokens q) (indexedColumns r))))) \<rparr>"




definition failingSemanticSearch :: "string \<Rightarrow> SemanticOptions \<Rightarrow> error + VectorResult list" where
  "failingSemanticSearch q opts = Inl (VectorError ''Failed to initialize vector storage service'')"

text \<open>A semantic index whose one answer has no metadata, so that the fusion throws.\<close>

definition brokenSemanticSearch :: "string \<Rightarrow> SemanticOptions \<Rightarrow> error + VectorResult list" where
  "brokenSemanticSearch q opts =
     Inr [\<lparr> v_id = ''unknown-1'', v_score = 0.7, v_metadata = None, v_document = [] \<rparr>]"

definition defaultOptions :: HybridOptions where
  "defaultOptions = \<lparr> semanticWeight = None, semanticThreshold = None, maxResults = None \<rparr>"











section \<open>Compliance level\<close>

lemma distinct_indicators:
  "distinct mandatoryIndicators" "distinct recommendedIndicators" "distinct optionalIndicators"
  by (simp_all add: mandatoryIndicators_def recommendedIndicators_def optionalIndicators_def)

lemma count_is_card:
  "distinct xs \<Longrightarrow> length (filter P xs) = card {t \<in> set xs. P t}"
proof -
  assume d: "distinct xs"
  have "{t \<in> set xs. P t} = {x. P x} \<inter> set xs" by auto
  then show ?thesis using d by (simp add: distinct_length_filter)
qed

lemma no_indicator_counts:
  assumes "\<forall>t \<in> set (mandatoryIndicators @ recommendedIndicators @ optionalIndicators).
             \<not> includesStr (toLowerCase cnt) t"
  shows "mandatoryCount cnt = 0" "recommendedCount cnt = 0" "optionalCount cnt = 0"
  using assms
  by (auto simp: mandatoryCount_def recommendedCount_def optionalCount_def filter_empty_conv)

text \<open>
  Claim C4. For every content string, each count is the number of indicators of its
  list that the lower-cased content contains, so an indicator counts once however often
  it occurs. The level is mandatory exactly when the mandatory count is strictly above
  both other counts; failing that, recommended exactly when the recommended count is
  strictly above the optional count; failing that, optional exactly when the optional
  count is positive; and unset otherwise. When the mandatory and recommended counts are
  equal the level is decided by the recommended and optional counts alone. The three
  example contents are classified mandatory, recommended and optional, and a content
  that contains no indicator has no level.
\<close>

theorem determineComplianceLevel_rule:
  "(determineComplianceLevel cnt = Some Mandatory \<longleftrightarrow>
      mandatoryCount cnt > recommendedCount cnt
      \<and> mandatoryCount cnt > optionalCount cnt)
   \<and> (determineComplianceLevel cnt = Some Recommended \<longleftrightarrow>
      \<not> (mandatoryCount cnt > recommendedCount cnt
         \<and> mandatoryCount cnt > optionalCount cnt)
      \<and> recommendedCount cnt > optionalCount cnt)
   \<and> (determineComplianceLevel cnt = Some Optional \<longleftrightarrow>
      \<not> (mandatoryCount cnt > recommendedCount cnt
         \<and> mandatoryCount cnt > optionalCount cnt)
      \<and> \<not> recommendedCount cnt > optionalCount cnt
      \<and> optionalCount cnt > 0)
   \<and> (determineComplianceLevel cnt = None \<longleftrightarrow>
      \<not> (mandatoryCount cnt > recommendedCount cnt
         \<and> mandatoryCount cnt > optionalCount cnt)
      \<and> \<not> recommendedCount cnt > optionalCount cnt
      \<and> optionalCount cnt = 0)
   \<and> mandatoryCount cnt =
        card {t \<in> set mandatoryIndicators. includesStr (toLowerCase cnt) t}
   \<and> recommendedCount cnt =
        card {t \<in> set recommendedIndicators. includesStr (toLowerCase cnt) t}
   \<and> optionalCount cnt =
        card {t \<in> set optionalIndicators. includesStr (toLowerCase cnt) t}
   \<and> (mandatoryCount cnt = recommendedCount cnt \<longrightarrow>
        determineComplianceLevel cnt =
          (if recommendedCount cnt > optionalCount cnt then Some Recommended
           else if optionalCount cnt > 0 then Some Optional else None))
   \<and> determineComplianceLevel ''Services must implement HTTPS and must log access.''
        = Some Mandatory
   \<and> determineComplianceLevel ''Services should implement caching. This is recommended.''
        = Some Recommended
   \<and> determineComplianceLevel ''Services may cache responses.'' = Some Optional
   \<and> ((\<forall>t \<in> set (mandatoryIndicators @ recommendedIndicators @ optionalIndicators).
          \<not> includesStr (toLowerCase cnt) t) \<longrightarrow>
        determineComplianceLevel cnt = None)"
proof -
  have rule: "determineComplianceLevel cnt =
      (if mandatoryCount cnt > recommendedCount cnt
          \<and> mandatoryCount cnt > optionalCount cnt then Some Mandatory
       else if recommendedCount cnt > optionalCount cnt then Some Recommended
       else if optionalCount cnt > 0 then Some Optional
       else None)"
    by (simp add: determineComplianceLevel_def)
  have m: "mandatoryCount cnt =
        card {t \<in> set mandatoryIndicators. includesStr (toLowerCase cnt) t}"
    unfolding mandatoryCount_def by (rule count_is_card) (rule distinct_indicators)
  have r: "recommendedCount cnt =
        card {t \<in> set recommendedIndicators. includesStr (toLowerCase cnt) t}"
    unfolding recommendedCount_def by (rule count_is_card) (rule distinct_indicators)
  have o: "optionalCount cnt =
        card {t \<in> set optionalIndicators. includesStr (toLowerCase cnt) t}"
    unfolding optionalCount_def by (rule count_is_card) (rule distinct_indicators)
  have e1: "determineComplianceLevel ''Services must implement HTTPS and must log access.''
        = Some Mandatory" by code_simp
  have e2: "determineComplianceLevel ''Services should implement caching. This is recommended.''
        = Some Recommended" by code_simp
  have e3: "determineComplianceLevel ''Services may cache responses.'' = Some Optional"
    by code_simp
  have e4: "(\<forall>t \<in> set (mandatoryIndicators @ recommendedIndicators @ optionalIndicators).
          \<not> includesStr (toLowerCase cnt) t) \<longrightarrow>
        determineComplianceLevel cnt = None"
    using no_indicator_counts[of cnt] by (simp add: rule)
  have tie: "mandatoryCount cnt = recommendedCount cnt \<longrightarrow>
        determineComplianceLevel cnt =
          (if recommendedCount cnt > optionalCount cnt then Some Recommended
           else if optionalCount cnt > 0 then Some Optional else None)"
    by (simp add: rule)
  have c1: "determineComplianceLevel cnt = Some Mandatory \<longleftrightarrow>
      mandatoryCount cnt > recommendedCount cnt
      \<and> mandatoryCount cnt > optionalCount cnt"
    by (simp add: rule)
  have c2: "determineComplianceLevel cnt = Some Recommended \<longleftrightarrow>
      \<not> (mandatoryCount cnt > recommendedCount cnt
         \<and> mandatoryCount cnt > optionalCount cnt)
      \<and> recommendedCount cnt > optionalCount cnt"
    by (simp add: rule)
  have c3: "determineComplianceLevel cnt = Some Optional \<longleftrightarrow>
      \<not> (mandatoryCount cnt > recommendedCount cnt
         \<and> mandatoryCount cnt > optionalCount cnt)
      \<and> \<not> recommendedCount cnt > optionalCount cnt
      \<and> optionalCount cnt > 0"
    by (simp add: rule)
  have c4: "determineComplianceLevel cnt = None \<longleftrightarrow>
      \<not> (mandatoryCount cnt > recommendedCount cnt
         \<and> mandatoryCount cnt > optionalCount cnt)
      \<and> \<not> recommendedCount cnt > optionalCount cnt
      \<and> optionalCount cnt = 0"
    by (simp add: rule)
  from c1 c2 c3 c4 m r o tie e1 e2 e3 e4 show ?thesis by blast
qed

text \<open>
  The rule at a content with one mandatory and one recommended indicator, which is
  classified recommended, and at a content with no indicator.
\<close>

theorem determineComplianceLevel_rule_witness:
  "mandatoryCount ''Services must encrypt data and should log access.''
     = recommendedCount ''Services must encrypt data and should log access.''
   \<and> determineComplianceLevel ''Services must encrypt data and should log access.''
     = Some Recommended
   \<and> filter (includesStr (toLowerCase ''Hello world.''))
        (mandatoryIndicators @ recommendedIndicators @ optionalIndicators) = []
   \<and> determineComplianceLevel ''Hello world.'' = None"
proof -
  have tie: "mandatoryCount ''Services must encrypt data and should log access.''
     = recommendedCount ''Services must encrypt data and should log access.''"
    by code_simp
  have gt: "recommendedCount ''Services must encrypt data and should log access.''
     > optionalCount ''Services must encrypt data and should log access.''"
    by code_simp
  have none: "filter (includesStr (toLowerCase ''Hello world.''))
        (mandatoryIndicators @ recommendedIndicators @ optionalIndicators) = []"
    by code_simp
  then have none': "\<forall>t \<in> set (mandatoryIndicators @ recommendedIndicators @ optionalIndicators).
          \<not> includesStr (toLowerCase ''Hello world.'') t"
    unfolding filter_empty_conv .
  have a: "determineComplianceLevel ''Services must encrypt data and should log access.''
     = Some Recommended"
    using determineComplianceLevel_rule
            [of "''Services must encrypt data and should log access.''"] tie gt
    by simp
  have b: "determineComplianceLevel ''Hello world.'' = None"
    using determineComplianceLevel_rule [of "''Hello world.''"] none' by blast
  from tie a none b show ?thesis by blast
qed

section \<open>Bounds on the derived fields\<close>

lemma set_setAdd: "set (setAdd xs x) = insert x (set xs)"
  by (auto simp: setAdd_def)

lemma relatedStep_subset:
  "set (relatedStep s other related)
     \<subseteq> set related \<union> (if id other = id s then {} else {id other})"
  by (auto simp: relatedStep_def Let_def set_setAdd)

lemma relatedStep_not_self:
  "id s \<notin> set related \<Longrightarrow> id s \<notin> set (relatedStep s other related)"
  using relatedStep_subset[of s other related] by (auto split: if_splits)

lemma fold_relatedStep_not_self:
  "id s \<notin> set related \<Longrightarrow> id s \<notin> set (fold (relatedStep s) others related)"
proof (induction others arbitrary: related)
  case Nil
  then show ?case by simp
next
  case (Cons other others)
  from Cons.prems have "id s \<notin> set (relatedStep s other related)"
    by (rule relatedStep_not_self)
  then show ?case using Cons.IH by simp
qed

lemma findRelatedStandards_not_self: "id s \<notin> set (findRelatedStandards s allStandards)"
proof -
  have "id s \<notin> set (fold (relatedStep s) allStandards [])"
    by (rule fold_relatedStep_not_self) simp
  then show ?thesis
    unfolding findRelatedStandards_def by (meson in_set_takeD)
qed

lemma findRelatedStandards_length: "length (findRelatedStandards s allStandards) \<le> 10"
  by (simp add: findRelatedStandards_def)

lemma extractTags_length: "length (extractTags ttl cnt) \<le> 20"
  by (simp add: extractTags_def Let_def)

lemma generateSummary_length: "length (generateSummary cnt 500) \<le> 500"
proof -
  have cut: "length (substring0 (500 - 3) summ @ ''...'') \<le> 500" for summ
    by (simp add: substring0_def)
  show ?thesis
    unfolding generateSummary_def Let_def
    using cut by (auto simp del: length_append)
qed

text \<open>
  Claim C8. Every scraped page whose URL the platform parses is turned into a
  standard, and that standard has at most 20 tags and a summary of at most 500
  characters; for every corpus, \<open>findRelatedStandards\<close> gives at most 10 ids for it,
  and its own id is not among them.
\<close>

theorem derived_field_bounds:
  assumes "pathname (sp_url p) = Some pth"
  shows "\<exists>s. processScrapedPage pathname md5Hex now p = Some s
           \<and> length (tags s) \<le> 20
           \<and> length (findRelatedStandards s allStandards) \<le> 10
           \<and> id s \<notin> set (findRelatedStandards s allStandards)
           \<and> (\<forall>x. summary s = Some x \<longrightarrow> length x \<le> 500)"
proof -
  from assms obtain i where i: "generateStandardId pathname md5Hex (sp_url p) = Some i"
    by (simp add: generateStandardId_def Let_def)
  then obtain s where s: "processScrapedPage pathname md5Hex now p = Some s"
    and t: "tags s = extractTags (sp_title p) (sp_content p)"
    and m: "summary s = Some (generateSummary (sp_content p) 500)"
    by (simp add: processScrapedPage_def)
  have "length (tags s) \<le> 20" using t extractTags_length by simp
  moreover have "\<forall>x. summary s = Some x \<longrightarrow> length x \<le> 500"
    using m generateSummary_length by simp
  ultimately show ?thesis
    using s findRelatedStandards_length findRelatedStandards_not_self by blast
qed

text \<open>The bounds for the page of the repository's tests, against the two stored standards.\<close>

theorem derived_field_bounds_witness:
  "testPathname (sp_url mockScrapedPage) = Some ''/guidance/gds-api-technical-and-data-standards''
   \<and> (\<exists>s. processScrapedPage testPathname testMd5Hex testDate mockScrapedPage = Some s
           \<and> id s = ''guidance-gds-api-technical-and-data-standards-409bf36d''
           \<and> length (tags s) \<le> 20
           \<and> length (findRelatedStandards s [apiSecurityStandard, wcagStandard]) \<le> 10
           \<and> id s \<notin> set (findRelatedStandards s [apiSecurityStandard, wcagStandard])
           \<and> (\<forall>x. summary s = Some x \<longrightarrow> length x \<le> 500))"
proof -
  have h: "testPathname (sp_url mockScrapedPage)
             = Some ''/guidance/gds-api-technical-and-data-standards''"
    by code_simp
  have i: "generateStandardId testPathname testMd5Hex (sp_url mockScrapedPage)
             = Some ''guidance-gds-api-technical-and-data-standards-409bf36d''"
    by code_simp
  from derived_field_bounds
         [where pathname = testPathname and p = mockScrapedPage and md5Hex = testMd5Hex
            and now = testDate and allStandards = "[apiSecurityStandard, wcagStandard]", OF h]
  obtain s where s: "processScrapedPage testPathname testMd5Hex testDate mockScrapedPage = Some s"
    and b: "length (tags s) \<le> 20"
      "length (findRelatedStandards s [apiSecurityStandard, wcagStandard]) \<le> 10"
      "id s \<notin> set (findRelatedStandards s [apiSecurityStandard, wcagStandard])"
      "\<forall>x. summary s = Some x \<longrightarrow> length x \<le> 500"
    by blast
  from s i have "id s = ''guidance-gds-api-technical-and-data-standards-409bf36d''"
    by (auto simp: processScrapedPage_def)
  with h s b show ?thesis by blast
qed


section \<open>Validation\<close>

lemma trim_Nil: "trim [] = []"
  by (simp add: trim_def)

text \<open>
  The white space that \<open>trim\<close> removes, and a content of 50 characters that is too
  short because its last character is a no-break space.
\<close>

lemma isSpace_iff:
  "isSpace c \<longleftrightarrow>
     c = CHR 0x09 \<or> c = CHR 0x0A \<or> c = CHR 0x0B \<or> c = CHR 0x0C \<or> c = CHR 0x0D
     \<or> c = CHR '' '' \<or> c = CHR 0xA0"
  by (simp add: isSpace_def)

lemma validateStandard_nbsp:
  "length (content nbspStandard) = 50
   \<and> length (trim (content nbspStandard)) = 49
   \<and> errors (validateStandard testPathname nbspStandard)
       = [''Standard content must be at least 50 characters long'']"
  by code_simp

lemma missing_iff:
  "idMissing s \<longleftrightarrow> trim (id s) = []"
  "titleMissing s \<longleftrightarrow> trim (title s) = []"
  "categoryMissing s \<longleftrightarrow> trim (category s) = []"
  by (auto simp: idMissing_def titleMissing_def categoryMissing_def trim_Nil)

lemma contentTooShort_iff: "contentTooShort s \<longleftrightarrow> length (trim (content s)) < 50"
  by (auto simp: contentTooShort_def trim_Nil)

lemma urlInvalid_iff: "urlInvalid pathname s \<longleftrightarrow> url s = [] \<or> pathname (url s) = None"
  by (simp add: urlInvalid_def isValidUrl_def)

lemma validateStandard_errors:
  "errors (validateStandard pathname s) =
     (if idMissing s then [''Standard ID is required''] else [])
     @ (if titleMissing s then [''Standard title is required''] else [])
     @ (if urlInvalid pathname s then [''Valid URL is required''] else [])
     @ (if contentTooShort s
        then [''Standard content must be at least 50 characters long''] else [])
     @ (if categoryMissing s then [''Standard category is required''] else [])"
  by (simp add: validateStandard_def Let_def)

lemma validateStandard_valid:
  "valid (validateStandard pathname s) \<longleftrightarrow> errors (validateStandard pathname s) = []"
  by (simp add: validateStandard_def Let_def)

text \<open>
  Claim C7, as amended. \<open>validateStandard\<close> checks all five rules and reports each
  violated one once, in the order id, title, URL, content, category: the id, the title
  and the category are missing when nothing is left of them after trimming white space,
  the URL is invalid when it is empty or the platform does not parse it, and the content
  is too short when fewer than 50 characters are left of it after trimming. The white
  space that is trimmed is that of \<open>isSpace\<close>, the no-break space included. \<open>valid\<close>
  holds exactly when no error is reported. A standard that violates the id, title and
  URL rules and no other gets exactly those three errors.
\<close>

theorem validateStandard_accumulates:
  "(''Standard ID is required'' \<in> set (errors (validateStandard pathname s))
      \<longleftrightarrow> trim (id s) = [])
   \<and> (''Standard title is required'' \<in> set (errors (validateStandard pathname s))
      \<longleftrightarrow> trim (title s) = [])
   \<and> (''Valid URL is required'' \<in> set (errors (validateStandard pathname s))
      \<longleftrightarrow> url s = [] \<or> pathname (url s) = None)
   \<and> (''Standard content must be at least 50 characters long''
        \<in> set (errors (validateStandard pathname s))
      \<longleftrightarrow> length (trim (content s)) < 50)
   \<and> (''Standard category is required'' \<in> set (errors (validateStandard pathname s))
      \<longleftrightarrow> trim (category s) = [])
   \<and> distinct (errors (validateStandard pathname s))
   \<and> set (errors (validateStandard pathname s))
        \<subseteq> {''Standard ID is required'', ''Standard title is required'',
            ''Valid URL is required'',
            ''Standard content must be at least 50 characters long'',
            ''Standard category is required''}
   \<and> (valid (validateStandard pathname s) \<longleftrightarrow> errors (validateStandard pathname s) = [])
   \<and> (trim (id s) = [] \<and> trim (title s) = [] \<and> (url s = [] \<or> pathname (url s) = None)
        \<and> length (trim (content s)) \<ge> 50 \<and> trim (category s) \<noteq> []
      \<longrightarrow> errors (validateStandard pathname s)
            = [''Standard ID is required'', ''Standard title is required'',
               ''Valid URL is required'']
          \<and> length (errors (validateStandard pathname s)) = 3)"
  unfolding validateStandard_errors validateStandard_valid
  unfolding missing_iff contentTooShort_iff urlInvalid_iff
  by (auto simp: not_less)

text \<open>The standard of the repository's test, with no id, no title and the URL \<open>invalid\<close>.\<close>

theorem validateStandard_accumulates_witness:
  "trim (id invalidStandard) = [] \<and> trim (title invalidStandard) = []
   \<and> testPathname (url invalidStandard) = None
   \<and> length (trim (content invalidStandard)) \<ge> 50
   \<and> trim (category invalidStandard) \<noteq> []
   \<and> errors (validateStandard testPathname invalidStandard)
        = [''Standard ID is required'', ''Standard title is required'',
           ''Valid URL is required'']
   \<and> length (errors (validateStandard testPathname invalidStandard)) = 3
   \<and> valid (validateStandard testPathname invalidStandard) = False"
proof -
  have h1: "trim (id invalidStandard) = []" by code_simp
  have h2: "trim (title invalidStandard) = []" by code_simp
  have h3: "testPathname (url invalidStandard) = None" by code_simp
  have h4: "length (trim (content invalidStandard)) \<ge> 50" by code_simp
  have h5: "trim (category invalidStandard) \<noteq> []" by code_simp
  from validateStandard_accumulates [of testPathname invalidStandard] h1 h2 h3 h4 h5
  show ?thesis by simp
qed

text \<open>
  Claim C7 as stated fails: a content of 50 characters, forty of them leading spaces,
  in an otherwise valid standard is reported as too short.
\<close>

theorem validateStandard_content_counterexample:
  "length (content paddedStandard) = 50
   \<and> trim (id paddedStandard) \<noteq> [] \<and> trim (title paddedStandard) \<noteq> []
   \<and> testPathname (url paddedStandard) = Some ''/valid-standard''
   \<and> trim (category paddedStandard) \<noteq> []
   \<and> errors (validateStandard testPathname paddedStandard)
        = [''Standard content must be at least 50 characters long'']
   \<and> valid (validateStandard testPathname paddedStandard) = False"
  by code_simp

section \<open>Recovery from a damaged index\<close>













section \<open>Ingesting a page twice\<close>

lemma insertOrReplace_twice:
  assumes "r_id a = r_id b" and "r_url a = r_url b"
  shows "insertOrReplaceStandard b (insertOrReplaceStandard a rows)
           = insertOrReplaceStandard b rows"
  using assms by (simp add: insertOrReplaceStandard_def)

lemma insertOrReplace_own_row:
  "filter (\<lambda>r. r_id r = r_id row) (insertOrReplaceStandard row rows) = [row]"
proof -
  have "filter (\<lambda>r. r_id r = r_id row)
          (filter (\<lambda>r. r_id r \<noteq> r_id row \<and> r_url r \<noteq> r_url row) rows) = []"
    by (auto simp: filter_empty_conv)
  then show ?thesis by (simp add: insertOrReplaceStandard_def)
qed

lemma insertOrReplace_distinct:
  assumes "distinct (map r_id rows)"
  shows "distinct (map r_id (insertOrReplaceStandard row rows))"
proof -
  have "distinct (map r_id (filter (\<lambda>r. r_id r \<noteq> r_id row \<and> r_url r \<noteq> r_url row) rows))"
    using assms by (rule distinct_map_filter)
  then show ?thesis by (auto simp: insertOrReplaceStandard_def)
qed

lemma standards_insertStandard:
  "standards (insertStandard now s st) = insertOrReplaceStandard (standardToRow now s) (standards st)"
  by (simp add: insertStandard_def updateCategoryCount_def)

lemma categories_insertStandard:
  "categories (insertStandard now s st) =
     filter (\<lambda>c. c_name c \<noteq> category s) (categories st)
     @ [\<lparr> c_name = category s, c_description = None,
          c_standards_count =
            length (filter (\<lambda>r. r_category r = category s)
                      (insertOrReplaceStandard (standardToRow now s) (standards st))),
          c_created_at = now \<rparr>]"
  by (simp add: insertStandard_def updateCategoryCount_def)

lemma fts_index_insertStandard:
  "fts_index (insertStandard now s st) = fts_index st @ [ftsEntry (standardToRow now s)]"
  by (simp add: insertStandard_def updateCategoryCount_def)

lemma insertStandard_twice:
  assumes "id a = id b" and "url a = url b" and "category a = category b"
  shows "standards (insertStandard nb b (insertStandard na a st))
           = standards (insertStandard nb b st)"
    and "categories (insertStandard nb b (insertStandard na a st))
           = categories (insertStandard nb b st)"
proof -
  have r: "r_id (standardToRow na a) = r_id (standardToRow nb b)"
          "r_url (standardToRow na a) = r_url (standardToRow nb b)"
    using assms by (simp_all add: standardToRow_def)
  show "standards (insertStandard nb b (insertStandard na a st))
             = standards (insertStandard nb b st)"
    unfolding standards_insertStandard by (rule insertOrReplace_twice) (rule r)+
  show "categories (insertStandard nb b (insertStandard na a st))
             = categories (insertStandard nb b st)"
    unfolding categories_insertStandard standards_insertStandard
    using assms insertOrReplace_twice[OF r] by simp
qed

lemma processScrapedPage_Some:
  assumes "processScrapedPage pathname md5Hex now p = Some s"
  shows "generateStandardId pathname md5Hex (sp_url p) = Some (id s)"
    and "url s = sp_url p" and "category s = sp_category p"
  using assms by (auto simp: processScrapedPage_def split: option.splits)

lemma processScrapedPage_again:
  assumes "processScrapedPage pathname md5Hex nowA p = Some sA"
  shows "\<exists>sB. processScrapedPage pathname md5Hex nowB p = Some sB \<and> id sB = id sA
            \<and> url sB = url sA \<and> category sB = category sA"
  using assms by (auto simp: processScrapedPage_def split: option.splits)

text \<open>
  Claim C6. When a scraped page is processed at one time into a standard, processing
  it at any other time succeeds as well and gives a standard with the same id, and so
  does every page with the same URL. Inserting the first standard and then the second
  leaves the tables \<open>standards\<close> and \<open>categories\<close> as inserting the second alone
  does: \<open>standards\<close> holds one row with this id, the row of the second insert, and ids
  that were distinct before stay distinct. The full-text index is not left as by one
  insert. One insert adds one entry for the id; two inserts add two, the entry of the
  replaced row and the entry of the new row, so the index holds one more entry for
  the id and the store after two inserts differs from the store after one.
\<close>

theorem ingestion_twice_index:
  assumes "processScrapedPage pathname md5Hex nowA p = Some sA"
  shows "\<exists>sB. processScrapedPage pathname md5Hex nowB p = Some sB
           \<and> id sB = id sA
           \<and> standards (insertStandard insB sB (insertStandard insA sA st))
               = standards (insertStandard insB sB st)
           \<and> categories (insertStandard insB sB (insertStandard insA sA st))
               = categories (insertStandard insB sB st)
           \<and> filter (\<lambda>r. r_id r = id sA)
                (standards (insertStandard insB sB (insertStandard insA sA st)))
               = [standardToRow insB sB]
           \<and> (distinct (map r_id (standards st)) \<longrightarrow>
                distinct (map r_id
                  (standards (insertStandard insB sB (insertStandard insA sA st)))))
           \<and> fts_index (insertStandard insB sB st)
               = fts_index st @ [ftsEntry (standardToRow insB sB)]
           \<and> fts_index (insertStandard insB sB (insertStandard insA sA st))
               = fts_index st
                 @ [ftsEntry (standardToRow insA sA), ftsEntry (standardToRow insB sB)]
           \<and> f_id (ftsEntry (standardToRow insA sA)) = id sA
           \<and> f_id (ftsEntry (standardToRow insB sB)) = id sA
           \<and> length (filter (\<lambda>e. f_id e = id sA)
                (fts_index (insertStandard insB sB (insertStandard insA sA st))))
               = length (filter (\<lambda>e. f_id e = id sA) (fts_index (insertStandard insB sB st))) + 1
           \<and> insertStandard insB sB (insertStandard insA sA st) \<noteq> insertStandard insB sB st
           \<and> (\<forall>q now' s'. sp_url q = sp_url p
                  \<and> processScrapedPage pathname md5Hex now' q = Some s' \<longrightarrow> id s' = id sA)"
proof -
  let ?twice = "insertStandard insB sB (insertStandard insA sA st)"
  from processScrapedPage_again[OF assms, of nowB]
  obtain sB where sB: "processScrapedPage pathname md5Hex nowB p = Some sB"
    and same: "id sB = id sA" "url sB = url sA" "category sB = category sA"
    by blast
  have st: "standards (insertStandard insB sB (insertStandard insA sA st))
              = standards (insertStandard insB sB st)"
    by (rule insertStandard_twice(1)) (simp_all add: same)
  have ca: "categories (insertStandard insB sB (insertStandard insA sA st))
              = categories (insertStandard insB sB st)"
    by (rule insertStandard_twice(2)) (simp_all add: same)
  have own: "filter (\<lambda>r. r_id r = id sA)
                (standards (insertStandard insB sB (insertStandard insA sA st)))
               = [standardToRow insB sB]"
  proof -
    have "id sA = r_id (standardToRow insB sB)" using same by (simp add: standardToRow_def)
    then show ?thesis
      unfolding st standards_insertStandard by (simp only: insertOrReplace_own_row)
  qed
  have dist: "distinct (map r_id (standards st)) \<longrightarrow>
                distinct (map r_id
                  (standards (insertStandard insB sB (insertStandard insA sA st))))"
    unfolding st standards_insertStandard by (simp add: insertOrReplace_distinct)
  have once: "fts_index (insertStandard insB sB st)
               = fts_index st @ [ftsEntry (standardToRow insB sB)]"
    by (rule fts_index_insertStandard)
  have twice: "fts_index (insertStandard insB sB (insertStandard insA sA st))
               = fts_index st
                 @ [ftsEntry (standardToRow insA sA), ftsEntry (standardToRow insB sB)]"
    by (simp add: fts_index_insertStandard)
  have ia: "f_id (ftsEntry (standardToRow insA sA)) = id sA"
    by (simp add: ftsEntry_def standardToRow_def)
  have ib: "f_id (ftsEntry (standardToRow insB sB)) = id sA"
    using same by (simp add: ftsEntry_def standardToRow_def)
  have cnt: "length (filter (\<lambda>e. f_id e = id sA)
                (fts_index (insertStandard insB sB (insertStandard insA sA st))))
               = length (filter (\<lambda>e. f_id e = id sA) (fts_index (insertStandard insB sB st))) + 1"
    unfolding once twice using ia ib by simp
  have ne: "insertStandard insB sB (insertStandard insA sA st) \<noteq> insertStandard insB sB st"
  proof
    assume "insertStandard insB sB (insertStandard insA sA st) = insertStandard insB sB st"
    then have "length (fts_index (insertStandard insB sB (insertStandard insA sA st)))
                 = length (fts_index (insertStandard insB sB st))"
      by simp
    then show False unfolding once twice by simp
  qed
  have det: "\<forall>q now' s'. sp_url q = sp_url p
                  \<and> processScrapedPage pathname md5Hex now' q = Some s' \<longrightarrow> id s' = id sA"
    using processScrapedPage_Some(1)[OF assms] processScrapedPage_Some(1)
    by (metis option.inject)
  show ?thesis
    by (rule exI[of _ sB]) (intro conjI sB same(1) st ca own dist once twice ia ib cnt ne det)
qed

text \<open>
  The page of the repository's tests, ingested twice into the store of two standards:
  the table holds three rows, one of them for the page, and the index holds four
  entries, two of them for the page.
\<close>

theorem ingestion_twice_index_witness:
  "\<exists>sA sB. processScrapedPage testPathname testMd5Hex testDate mockScrapedPage = Some sA
     \<and> processScrapedPage testPathname testMd5Hex laterDate mockScrapedPage = Some sB
     \<and> id sA = ''guidance-gds-api-technical-and-data-standards-409bf36d''
     \<and> id sB = id sA
     \<and> standards (insertStandard laterDate sB (insertStandard testDate sA testStore))
         = standards (insertStandard laterDate sB testStore)
     \<and> length (standards (insertStandard laterDate sB (insertStandard testDate sA testStore))) = 3
     \<and> filter (\<lambda>r. r_id r = id sA)
          (standards (insertStandard laterDate sB (insertStandard testDate sA testStore)))
         = [standardToRow laterDate sB]
     \<and> map f_id (fts_index (insertStandard laterDate sB testStore))
         = [''api-security-1'', ''accessibility-wcag-1'',
            ''guidance-gds-api-technical-and-data-standards-409bf36d'']
     \<and> map f_id (fts_index (insertStandard laterDate sB (insertStandard testDate sA testStore)))
         = [''api-security-1'', ''accessibility-wcag-1'',
            ''guidance-gds-api-technical-and-data-standards-409bf36d'',
            ''guidance-gds-api-technical-and-data-standards-409bf36d'']
     \<and> insertStandard laterDate sB (insertStandard testDate sA testStore)
         \<noteq> insertStandard laterDate sB testStore"
proof -
  have i: "generateStandardId testPathname testMd5Hex (sp_url mockScrapedPage)
             = Some ''guidance-gds-api-technical-and-data-standards-409bf36d''"
    by code_simp
  then obtain sA where sA: "processScrapedPage testPathname testMd5Hex testDate mockScrapedPage = Some sA"
    by (simp add: processScrapedPage_def)
  from ingestion_twice_index
         [where pathname = testPathname and md5Hex = testMd5Hex and nowA = testDate
            and p = mockScrapedPage and sA = sA and nowB = laterDate and insA = testDate
            and insB = laterDate and st = testStore, OF sA]
  obtain sB where sB: "processScrapedPage testPathname testMd5Hex laterDate mockScrapedPage = Some sB"
    and b: "id sB = id sA"
      "standards (insertStandard laterDate sB (insertStandard testDate sA testStore))
         = standards (insertStandard laterDate sB testStore)"
      "filter (\<lambda>r. r_id r = id sA)
          (standards (insertStandard laterDate sB (insertStandard testDate sA testStore)))
         = [standardToRow laterDate sB]"
    and f: "fts_index (insertStandard laterDate sB testStore)
               = fts_index testStore @ [ftsEntry (standardToRow laterDate sB)]"
      "fts_index (insertStandard laterDate sB (insertStandard testDate sA testStore))
               = fts_index testStore
                 @ [ftsEntry (standardToRow testDate sA), ftsEntry (standardToRow laterDate sB)]"
      "f_id (ftsEntry (standardToRow testDate sA)) = id sA"
      "f_id (ftsEntry (standardToRow laterDate sB)) = id sA"
    and ne: "insertStandard laterDate sB (insertStandard testDate sA testStore)
               \<noteq> insertStandard laterDate sB testStore"
    by blast
  have idA: "id sA = ''guidance-gds-api-technical-and-data-standards-409bf36d''"
    using sA i by (auto simp: processScrapedPage_def)
  have urlB: "url sB = ''https://www.gov.uk/guidance/gds-api-technical-and-data-standards''"
    using sB by (auto simp: processScrapedPage_def mockScrapedPage_def split: option.splits)
  have rows: "map r_id (standards testStore) = [''api-security-1'', ''accessibility-wcag-1'']"
    "map r_url (standards testStore)
       = [''https://www.gov.uk/api-security'', ''https://www.gov.uk/wcag-compliance'']"
    by code_simp+
  have len2: "length (standards testStore) = 2" by code_simp
  have idx: "map f_id (fts_index testStore) = [''api-security-1'', ''accessibility-wcag-1'']"
    by code_simp
  have keep: "filter (\<lambda>r. r_id r \<noteq> id sB \<and> r_url r \<noteq> url sB) (standards testStore)
                = standards testStore"
  proof -
    have "\<forall>r \<in> set (standards testStore). r_id r \<in> set (map r_id (standards testStore))
            \<and> r_url r \<in> set (map r_url (standards testStore))"
      by simp
    then have "\<forall>r \<in> set (standards testStore). r_id r \<noteq> id sB \<and> r_url r \<noteq> url sB"
      unfolding rows b(1) idA urlB by auto
    then show ?thesis by (simp add: filter_id_conv)
  qed
  have len: "length (standards (insertStandard laterDate sB (insertStandard testDate sA testStore))) = 3"
  proof -
    have "length (standards (insertStandard laterDate sB testStore)) = 3"
      unfolding standards_insertStandard insertOrReplaceStandard_def
      using keep len2 by (simp add: standardToRow_def)
    then show ?thesis by (simp only: b(2))
  qed
  have once: "map f_id (fts_index (insertStandard laterDate sB testStore))
         = [''api-security-1'', ''accessibility-wcag-1'',
            ''guidance-gds-api-technical-and-data-standards-409bf36d'']"
    unfolding f(1) using idx f(4) idA by simp
  have twice: "map f_id (fts_index (insertStandard laterDate sB (insertStandard testDate sA testStore)))
         = [''api-security-1'', ''accessibility-wcag-1'',
            ''guidance-gds-api-technical-and-data-standards-409bf36d'',
            ''guidance-gds-api-technical-and-data-standards-409bf36d'']"
    unfolding f(2) using idx f(3) f(4) idA by simp
  show ?thesis
    by (rule exI[of _ sA], rule exI[of _ sB])
       (intro conjI sA sB idA b(1) b(2) len b(3) once twice ne)
qed

section \<open>Lexical search\<close>

lemma mapE_Inr:
  assumes "\<forall>x \<in> set xs. \<exists>y. f x = Inr y"
  shows "\<exists>ys. mapE f xs = Inr ys \<and> list_all2 (\<lambda>x y. f x = Inr y) xs ys"
  using assms
proof (induction xs)
  case Nil
  then show ?case by simp
next
  case (Cons x xs)
  then obtain y where y: "f x = Inr y" by auto
  from Cons obtain ys where ys: "mapE f xs = Inr ys" "list_all2 (\<lambda>x y. f x = Inr y) xs ys"
    by auto
  from y ys show ?case by simp
qed

lemma holdsAll_filterConditions:
  "holdsAll (filterConditions cat org) r \<longleftrightarrow>
     (truthy cat \<longrightarrow> Some (r_category r) = cat) \<and> (truthy org \<longrightarrow> r_source_org r = org)"
  by (simp add: holdsAll_def filterConditions_def)

lemma rowToStandard_fields:
  assumes "rowToStandard jsonParse row = Inr s"
  shows "id s = r_id row" "title s = r_title row" "category s = r_category row"
  using assms
  by (auto simp: rowToStandard_def split: sum.splits)

lemma rowToStandard_columns:
  assumes "rowToStandard jsonParse row = Inr s"
  shows "id s = r_id row \<and> title s = r_title row \<and> category s = r_category row
         \<and> url s = r_url row \<and> content s = r_content row
         \<and> summary s = orNull (r_summary row)
         \<and> lastUpdated s = orNull (r_last_updated row)
         \<and> sourceOrg s = orNull (r_source_org row)
         \<and> parseArrayColumn jsonParse (r_tags row) = Inr (tags s)
         \<and> complianceLevel s = r_compliance_level row
         \<and> parseArrayColumn jsonParse (r_related_standards row) = Inr (relatedStandards s)
         \<and> createdAt s = r_created_at row \<and> updatedAt s = r_updated_at row"
  using assms
  by (auto simp: rowToStandard_def split: sum.splits)

text \<open>
  Every row that \<open>insertStandard\<close> writes converts back, on a platform whose
  \<open>JSON.parse\<close> reads what its \<open>JSON.stringify\<close> writes; so a store that is filled by
  \<open>insertStandard\<close> alone holds only rows that convert.
\<close>

lemma standardToRow_converts:
  assumes "\<forall>xs. jsonParse (jsonStringify xs) = Some xs"
  shows "\<exists>s'. rowToStandard jsonParse (standardToRow now s) = Inr s'"
  using assms
  by (simp add: rowToStandard_def standardToRow_def parseArrayColumn_def jsonStringify_def)

lemma insertStandard_converts:
  assumes "\<forall>xs. jsonParse (jsonStringify xs) = Some xs"
    and "\<forall>row \<in> set (standards st). \<exists>s'. rowToStandard jsonParse row = Inr s'"
  shows "\<forall>row \<in> set (standards (insertStandard now s st)).
           \<exists>s'. rowToStandard jsonParse row = Inr s'"
proof
  fix row
  assume "row \<in> set (standards (insertStandard now s st))"
  then have "row \<in> set (standards st) \<or> row = standardToRow now s"
    by (auto simp: standards_insertStandard insertOrReplaceStandard_def)
  then show "\<exists>s'. rowToStandard jsonParse row = Inr s'"
    using assms(2) standardToRow_converts[OF assms(1)] by blast
qed

lemma searchStandards_empty:
  assumes e: "emptyQuery query"
    and p: "\<forall>row \<in> set (standards st). \<exists>s. rowToStandard jsonParse row = Inr s"
  shows "\<exists>rs. searchStandards eng jsonParse st query cat org = Inr rs
           \<and> list_all2 (\<lambda>row r. rowToStandard jsonParse row = Inr (standard r)
                                  \<and> relevanceScore r = 1 \<and> matchedFields r = [])
               (sort_key r_title (filter (holdsAll (filterConditions cat org)) (standards st)))
               rs"
proof -
  let ?rows = "sort_key r_title (filter (holdsAll (filterConditions cat org)) (standards st))"
  let ?f = "\<lambda>row. case rowToStandard jsonParse row of
                     Inl e \<Rightarrow> Inl e
                   | Inr s \<Rightarrow> Inr \<lparr> standard = s, relevanceScore = 1, matchedFields = [] \<rparr>"
  have "\<forall>row \<in> set ?rows. \<exists>y. ?f row = Inr y"
    using p by (auto split: sum.splits)
  from mapE_Inr[OF this] obtain rs where rs: "mapE ?f ?rows = Inr rs"
    and rel: "list_all2 (\<lambda>x y. ?f x = Inr y) ?rows rs"
    by blast
  have "list_all2 (\<lambda>row r. rowToStandard jsonParse row = Inr (standard r)
                                  \<and> relevanceScore r = 1 \<and> matchedFields r = []) ?rows rs"
    by (rule list_all2_mono[OF rel]) (auto split: sum.splits)
  moreover have "searchStandards eng jsonParse st query cat org = Inr rs"
    using e rs by (simp add: searchStandards_def)
  ultimately show ?thesis by blast
qed

lemma searchStandards_fts:
  assumes e: "\<not> emptyQuery query"
    and a: "ftsError eng query = None"
    and p: "\<forall>row \<in> set (standards st). \<exists>s. rowToStandard jsonParse row = Inr s"
  shows "\<exists>rs. searchStandards eng jsonParse st query cat org = Inr rs
           \<and> list_all2 (\<lambda>row r. rowToStandard jsonParse row = Inr (standard r)
                                  \<and> relevanceScore r = \<bar>bm25 eng query row\<bar>
                                  \<and> matchedFields r = getMatchedFields row query)
               (sort_key (bm25 eng query)
                  (filter (\<lambda>r. ftsMatch eng query r \<and> holdsAll (filterConditions cat org) r)
                          (standards st)))
               rs"
proof -
  let ?rows = "sort_key (bm25 eng query)
                  (filter (\<lambda>r. ftsMatch eng query r \<and> holdsAll (filterConditions cat org) r)
                          (standards st))"
  let ?f = "\<lambda>row. case rowToStandard jsonParse row of
                     Inl e \<Rightarrow> Inl e
                   | Inr s \<Rightarrow> Inr \<lparr> standard = s, relevanceScore = \<bar>bm25 eng query row\<bar>,
                                     matchedFields = getMatchedFields row query \<rparr>"
  have "\<forall>row \<in> set ?rows. \<exists>y. ?f row = Inr y"
    using p by (auto split: sum.splits)
  from mapE_Inr[OF this] obtain rs where rs: "mapE ?f ?rows = Inr rs"
    and rel: "list_all2 (\<lambda>x y. ?f x = Inr y) ?rows rs"
    by blast
  have "list_all2 (\<lambda>row r. rowToStandard jsonParse row = Inr (standard r)
                                  \<and> relevanceScore r = \<bar>bm25 eng query row\<bar>
                                  \<and> matchedFields r = getMatchedFields row query) ?rows rs"
    by (rule list_all2_mono[OF rel]) (auto split: sum.splits)
  moreover have "searchStandards eng jsonParse st query cat org = Inr rs"
    using e a rs by (simp add: searchStandards_def)
  ultimately show ?thesis by blast
qed

lemma list_all2_map_eq:
  assumes "list_all2 (\<lambda>x y. f x = g y) xs ys"
  shows "map f xs = map g ys"
  using assms by (induction rule: list_all2_induct) auto

text \<open>
  Claim C5. For a query that is empty or white space only, over a store whose rows
  all convert (their array columns are JSON arrays, as \<open>insertStandard\<close> writes
  them), \<open>searchStandards\<close> returns one result for each row that passes the active
  filters and for no other, in the order of the titles. The standard of a result
  carries the columns of its row: id, title, category, URL, content, compliance level
  and the two timestamps as they are, summary, date and organisation with an empty
  text read as absent, and tags and related standards as the arrays that their texts
  denote. Each result has the score 1 and no matched field; so the number of results
  is the number of stored rows that pass the filters. A filter is active when it is
  given and not empty; the category filter compares \<open>category\<close> and the organisation
  filter compares \<open>source_org\<close>, for equality.
\<close>

theorem empty_query_search:
  assumes "emptyQuery query"
    and "\<forall>row \<in> set (standards st). \<exists>s. rowToStandard jsonParse row = Inr s"
  shows "\<exists>rows rs. searchStandards eng jsonParse st query cat org = Inr rs
           \<and> mset rows
               = mset (filter (\<lambda>row. (truthy cat \<longrightarrow> Some (r_category row) = cat)
                                      \<and> (truthy org \<longrightarrow> r_source_org row = org))
                              (standards st))
           \<and> sorted (map r_title rows)
           \<and> list_all2
                (\<lambda>row r. rowToStandard jsonParse row = Inr (standard r)
                  \<and> id (standard r) = r_id row \<and> title (standard r) = r_title row
                  \<and> category (standard r) = r_category row \<and> url (standard r) = r_url row
                  \<and> content (standard r) = r_content row
                  \<and> summary (standard r) = orNull (r_summary row)
                  \<and> lastUpdated (standard r) = orNull (r_last_updated row)
                  \<and> sourceOrg (standard r) = orNull (r_source_org row)
                  \<and> parseArrayColumn jsonParse (r_tags row) = Inr (tags (standard r))
                  \<and> complianceLevel (standard r) = r_compliance_level row
                  \<and> parseArrayColumn jsonParse (r_related_standards row)
                      = Inr (relatedStandards (standard r))
                  \<and> createdAt (standard r) = r_created_at row
                  \<and> updatedAt (standard r) = r_updated_at row
                  \<and> relevanceScore r = 1 \<and> matchedFields r = [])
               rows rs
           \<and> sorted (map (title \<circ> standard) rs)
           \<and> length rs
               = length (filter (\<lambda>row. (truthy cat \<longrightarrow> Some (r_category row) = cat)
                                        \<and> (truthy org \<longrightarrow> r_source_org row = org))
                                (standards st))"
proof -
  let ?P = "\<lambda>row. (truthy cat \<longrightarrow> Some (r_category row) = cat)
                   \<and> (truthy org \<longrightarrow> r_source_org row = org)"
  let ?rows = "sort_key r_title (filter (holdsAll (filterConditions cat org)) (standards st))"
  from searchStandards_empty[OF assms, of eng cat org]
  obtain rs where rs: "searchStandards eng jsonParse st query cat org = Inr rs"
    and rel: "list_all2 (\<lambda>row r. rowToStandard jsonParse row = Inr (standard r)
                                  \<and> relevanceScore r = 1 \<and> matchedFields r = []) ?rows rs"
    by blast
  have f: "filter (holdsAll (filterConditions cat org)) (standards st) = filter ?P (standards st)"
    by (rule filter_cong) (simp_all add: holdsAll_filterConditions)
  have m: "mset ?rows = mset (filter ?P (standards st))"
    unfolding f by simp
  have s: "sorted (map r_title ?rows)" by (rule sorted_sort_key)
  have "list_all2 (\<lambda>row r. r_title row = (title \<circ> standard) r) ?rows rs"
    by (rule list_all2_mono[OF rel]) (auto dest: rowToStandard_fields)
  then have "map r_title ?rows = map (title \<circ> standard) rs" by (rule list_all2_map_eq)
  with s have t: "sorted (map (title \<circ> standard) rs)" by simp
  have l: "length rs = length (filter ?P (standards st))"
    using list_all2_lengthD[OF rel] unfolding f by simp
  have rel': "list_all2
                (\<lambda>row r. rowToStandard jsonParse row = Inr (standard r)
                  \<and> id (standard r) = r_id row \<and> title (standard r) = r_title row
                  \<and> category (standard r) = r_category row \<and> url (standard r) = r_url row
                  \<and> content (standard r) = r_content row
                  \<and> summary (standard r) = orNull (r_summary row)
                  \<and> lastUpdated (standard r) = orNull (r_last_updated row)
                  \<and> sourceOrg (standard r) = orNull (r_source_org row)
                  \<and> parseArrayColumn jsonParse (r_tags row) = Inr (tags (standard r))
                  \<and> complianceLevel (standard r) = r_compliance_level row
                  \<and> parseArrayColumn jsonParse (r_related_standards row)
                      = Inr (relatedStandards (standard r))
                  \<and> createdAt (standard r) = r_created_at row
                  \<and> updatedAt (standard r) = r_updated_at row
                  \<and> relevanceScore r = 1 \<and> matchedFields r = [])
               ?rows rs"
  proof (rule list_all2_mono[OF rel])
    fix row r
    assume h: "rowToStandard jsonParse row = Inr (standard r)
               \<and> relevanceScore r = 1 \<and> matchedFields r = []"
    then have "rowToStandard jsonParse row = Inr (standard r)" by simp
    from rowToStandard_columns[OF this] h
    show "rowToStandard jsonParse row = Inr (standard r)
                  \<and> id (standard r) = r_id row \<and> title (standard r) = r_title row
                  \<and> category (standard r) = r_category row \<and> url (standard r) = r_url row
                  \<and> content (standard r) = r_content row
                  \<and> summary (standard r) = orNull (r_summary row)
                  \<and> lastUpdated (standard r) = orNull (r_last_updated row)
                  \<and> sourceOrg (standard r) = orNull (r_source_org row)
                  \<and> parseArrayColumn jsonParse (r_tags row) = Inr (tags (standard r))
                  \<and> complianceLevel (standard r) = r_compliance_level row
                  \<and> parseArrayColumn jsonParse (r_related_standards row)
                      = Inr (relatedStandards (standard r))
                  \<and> createdAt (standard r) = r_created_at row
                  \<and> updatedAt (standard r) = r_updated_at row
                  \<and> relevanceScore r = 1 \<and> matchedFields r = []"
      by simp
  qed
  show ?thesis
    by (rule exI[of _ ?rows], rule exI[of _ rs]) (intro conjI rs m s rel' t l)
qed

lemma standards_testStore:
  "standards testStore
     = [standardToRow testDate apiSecurityStandard, standardToRow testDate wcagStandard]"
  by code_simp

lemma roundtrip_testStore:
  "rowToStandard testJsonParse (standardToRow testDate apiSecurityStandard)
     = Inr apiSecurityStandard"
  "rowToStandard testJsonParse (standardToRow testDate wcagStandard) = Inr wcagStandard"
  by code_simp+

lemma parse_testStore:
  "\<forall>row \<in> set (standards testStore). \<exists>s. rowToStandard testJsonParse row = Inr s"
  unfolding standards_testStore using roundtrip_testStore by simp

lemma search_apiOAuth:
  "searchStandards tokenEngine testJsonParse testStore ''API OAuth'' None None
     = Inr [\<lparr> standard = apiSecurityStandard, relevanceScore = 6, matchedFields = [] \<rparr>]"
  by code_simp


lemma search_blank:
  "searchStandards tokenEngine testJsonParse testStore [] None None
     = Inr [\<lparr> standard = apiSecurityStandard, relevanceScore = 1, matchedFields = [] \<rparr>,
            \<lparr> standard = wcagStandard, relevanceScore = 1, matchedFields = [] \<rparr>]"
  by code_simp

lemma distinct_testStore: "distinct (map r_id (standards testStore))"
  unfolding standards_testStore
  by (simp add: standardToRow_def apiSecurityStandard_def wcagStandard_def)


lemma search_blank_apis:
  "searchStandards tokenEngine testJsonParse testStore [CHR '' '', CHR 0xA0, CHR 0x09]
     (Some ''APIs'') None
     = Inr [\<lparr> standard = apiSecurityStandard, relevanceScore = 1, matchedFields = [] \<rparr>]"
  by code_simp

text \<open>
  A query of a space, a no-break space and a tab, with the category filter \<open>APIs\<close>, on
  the store of two standards.
\<close>

theorem empty_query_search_witness:
  "emptyQuery [CHR '' '', CHR 0xA0, CHR 0x09]
   \<and> searchStandards tokenEngine testJsonParse testStore [CHR '' '', CHR 0xA0, CHR 0x09]
        (Some ''APIs'') None
       = Inr [\<lparr> standard = apiSecurityStandard, relevanceScore = 1, matchedFields = [] \<rparr>]
   \<and> (\<exists>rs. searchStandards tokenEngine testJsonParse testStore [CHR '' '', CHR 0xA0, CHR 0x09]
             (Some ''APIs'') None = Inr rs
          \<and> length rs = 1
          \<and> sorted (map (title \<circ> standard) rs))"
proof -
  have e: "emptyQuery [CHR '' '', CHR 0xA0, CHR 0x09]" by code_simp
  have n: "length (filter (\<lambda>row. (truthy (Some ''APIs'') \<longrightarrow> Some (r_category row) = Some ''APIs'')
                                  \<and> (truthy None \<longrightarrow> r_source_org row = None))
                          (standards testStore)) = 1"
    unfolding standards_testStore
    by (simp add: truthy_def standardToRow_def apiSecurityStandard_def wcagStandard_def)
  from empty_query_search
         [where query = "[CHR '' '', CHR 0xA0, CHR 0x09]" and st = testStore
            and jsonParse = testJsonParse
            and eng = tokenEngine and cat = "Some ''APIs''" and org = None,
          OF e parse_testStore]
  obtain rs where rs: "searchStandards tokenEngine testJsonParse testStore
                         [CHR '' '', CHR 0xA0, CHR 0x09] (Some ''APIs'') None = Inr rs"
    and t: "sorted (map (title \<circ> standard) rs)"
    and l: "length rs
              = length (filter (\<lambda>row. (truthy (Some ''APIs'') \<longrightarrow> Some (r_category row) = Some ''APIs'')
                                        \<and> (truthy None \<longrightarrow> r_source_org row = None))
                               (standards testStore))"
    by blast
  from rs t l n have x: "\<exists>rs. searchStandards tokenEngine testJsonParse testStore
             [CHR '' '', CHR 0xA0, CHR 0x09] (Some ''APIs'') None = Inr rs
          \<and> length rs = 1
          \<and> sorted (map (title \<circ> standard) rs)"
    by simp
  show ?thesis by (intro conjI e search_blank_apis x)
qed




lemma tokenEngine_accepts: "ftsError tokenEngine q = None"
  by (simp add: tokenEngine_def)





section \<open>Matched fields\<close>

lemma list_all2_in_setD:
  assumes "list_all2 P xs ys" and "x \<in> set xs"
  shows "\<exists>y \<in> set ys. P x y"
  using assms by (induction rule: list_all2_induct) auto

lemma getMatchedFields_apiOAuth:
  "getMatchedFields (standardToRow testDate apiSecurityStandard) ''API OAuth'' = []"
  by code_simp

lemma getMatchedFields_set:
  "set (getMatchedFields row q) =
     (if includesStr (toLowerCase (r_title row)) (toLowerCase q) then {''title''} else {})
     \<union> (if includesStr (toLowerCase (r_content row)) (toLowerCase q) then {''content''} else {})
     \<union> (if columnIncludes (r_summary row) (toLowerCase q) then {''summary''} else {})
     \<union> (if columnIncludes (r_tags row) (toLowerCase q) then {''tags''} else {})"
  by (simp add: getMatchedFields_def Let_def)

text \<open>
  Claim C10. \<open>getMatchedFields\<close> names a field exactly when the lower-cased field
  contains the whole lower-cased query, for the title, the content, the summary and
  the tags text (the last two when present and not empty). So whenever the engine
  matches the stored standard \<open>api-security-1\<close> on the query \<open>API OAuth\<close>, as the
  repository's test says the index does, the search returns that standard with no
  matched field at all.
\<close>

theorem matchedFields_may_be_empty:
  "(ftsError eng ''API OAuth'' = None
      \<and> ftsMatch eng ''API OAuth'' (standardToRow testDate apiSecurityStandard)
    \<longrightarrow> (\<exists>rs r. searchStandards eng testJsonParse testStore ''API OAuth'' None None = Inr rs
               \<and> r \<in> set rs \<and> standard r = apiSecurityStandard \<and> matchedFields r = []))
   \<and> (''title'' \<in> set (getMatchedFields row q)
        \<longleftrightarrow> includesStr (toLowerCase (r_title row)) (toLowerCase q))
   \<and> (''content'' \<in> set (getMatchedFields row q)
        \<longleftrightarrow> includesStr (toLowerCase (r_content row)) (toLowerCase q))
   \<and> (''summary'' \<in> set (getMatchedFields row q)
        \<longleftrightarrow> (\<exists>v. r_summary row = Some v \<and> v \<noteq> []
                  \<and> includesStr (toLowerCase v) (toLowerCase q)))
   \<and> (''tags'' \<in> set (getMatchedFields row q)
        \<longleftrightarrow> (\<exists>v. r_tags row = Some v \<and> v \<noteq> []
                  \<and> includesStr (toLowerCase v) (toLowerCase q)))
   \<and> set (getMatchedFields row q) \<subseteq> {''title'', ''content'', ''summary'', ''tags''}"
proof -
  have ex: "ftsError eng ''API OAuth'' = None
      \<and> ftsMatch eng ''API OAuth'' (standardToRow testDate apiSecurityStandard)
    \<longrightarrow> (\<exists>rs r. searchStandards eng testJsonParse testStore ''API OAuth'' None None = Inr rs
               \<and> r \<in> set rs \<and> standard r = apiSecurityStandard \<and> matchedFields r = [])"
  proof
    assume h: "ftsError eng ''API OAuth'' = None
      \<and> ftsMatch eng ''API OAuth'' (standardToRow testDate apiSecurityStandard)"
    let ?row = "standardToRow testDate apiSecurityStandard"
    let ?rows = "sort_key (bm25 eng ''API OAuth'')
                  (filter (\<lambda>r. ftsMatch eng ''API OAuth'' r
                                \<and> holdsAll (filterConditions None None) r)
                          (standards testStore))"
    have e: "\<not> emptyQuery ''API OAuth''" by code_simp
    from h have a: "ftsError eng ''API OAuth'' = None" by simp
    from searchStandards_fts[OF e a parse_testStore, of None None]
    obtain rs where rs: "searchStandards eng testJsonParse testStore ''API OAuth'' None None = Inr rs"
      and rel: "list_all2 (\<lambda>row r. rowToStandard testJsonParse row = Inr (standard r)
                                  \<and> relevanceScore r = \<bar>bm25 eng ''API OAuth'' row\<bar>
                                  \<and> matchedFields r = getMatchedFields row ''API OAuth'')
                  ?rows rs"
      by blast
    have "?row \<in> set ?rows"
      using h by (simp add: standards_testStore holdsAll_filterConditions truthy_def)
    from list_all2_in_setD[OF rel this]
    obtain r where r: "r \<in> set rs" "rowToStandard testJsonParse ?row = Inr (standard r)"
      "matchedFields r = getMatchedFields ?row ''API OAuth''"
      by blast
    from r(2) have "standard r = apiSecurityStandard"
      by (simp add: roundtrip_testStore)
    with rs r show "\<exists>rs r. searchStandards eng testJsonParse testStore ''API OAuth'' None None = Inr rs
               \<and> r \<in> set rs \<and> standard r = apiSecurityStandard \<and> matchedFields r = []"
      using getMatchedFields_apiOAuth by auto
  qed
  have t: "''title'' \<in> set (getMatchedFields row q)
        \<longleftrightarrow> includesStr (toLowerCase (r_title row)) (toLowerCase q)"
    unfolding getMatchedFields_set by simp
  have c: "''content'' \<in> set (getMatchedFields row q)
        \<longleftrightarrow> includesStr (toLowerCase (r_content row)) (toLowerCase q)"
    unfolding getMatchedFields_set by simp
  have s: "''summary'' \<in> set (getMatchedFields row q)
        \<longleftrightarrow> (\<exists>v. r_summary row = Some v \<and> v \<noteq> []
                  \<and> includesStr (toLowerCase v) (toLowerCase q))"
    unfolding getMatchedFields_set by (simp add: columnIncludes_def split: option.splits)
  have g: "''tags'' \<in> set (getMatchedFields row q)
        \<longleftrightarrow> (\<exists>v. r_tags row = Some v \<and> v \<noteq> []
                  \<and> includesStr (toLowerCase v) (toLowerCase q))"
    unfolding getMatchedFields_set by (simp add: columnIncludes_def split: option.splits)
  have u: "set (getMatchedFields row q) \<subseteq> {''title'', ''content'', ''summary'', ''tags''}"
    unfolding getMatchedFields_set by auto
  show ?thesis by (intro conjI ex t c s g u)
qed

text \<open>The small engine of the examples matches token by token, and so matches here.\<close>

theorem matchedFields_may_be_empty_witness:
  "ftsError tokenEngine ''API OAuth'' = None
   \<and> ftsMatch tokenEngine ''API OAuth'' (standardToRow testDate apiSecurityStandard)
   \<and> (\<exists>rs r. searchStandards tokenEngine testJsonParse testStore ''API OAuth'' None None = Inr rs
               \<and> r \<in> set rs \<and> standard r = apiSecurityStandard \<and> matchedFields r = [])
   \<and> searchStandards tokenEngine testJsonParse testStore ''API OAuth'' None None
       = Inr [\<lparr> standard = apiSecurityStandard, relevanceScore = 6, matchedFields = [] \<rparr>]"
proof -
  have m: "ftsMatch tokenEngine ''API OAuth'' (standardToRow testDate apiSecurityStandard)"
    by code_simp
  have v: "searchStandards tokenEngine testJsonParse testStore ''API OAuth'' None None
       = Inr [\<lparr> standard = apiSecurityStandard, relevanceScore = 6, matchedFields = [] \<rparr>]"
    by (rule search_apiOAuth)
  from matchedFields_may_be_empty [where eng = tokenEngine] tokenEngine_accepts m
  have "\<exists>rs r. searchStandards tokenEngine testJsonParse testStore ''API OAuth'' None None = Inr rs
               \<and> r \<in> set rs \<and> standard r = apiSecurityStandard \<and> matchedFields r = []"
    by blast
  with m v show ?thesis by (simp add: tokenEngine_accepts)
qed


section \<open>Hybrid search\<close>

lemma update_fresh: "k \<notin> fst ` set al \<Longrightarrow> AList.update k v al = al @ [(k, v)]"
  by (induction al) auto


lemma fold_addFts_fresh:
  assumes "distinct (map (id \<circ> standard) fts)"
    and "(id \<circ> standard) ` set fts \<inter> fst ` set c = {}"
  shows "fold (addFts w) fts c = c @ map (\<lambda>r. (id (standard r), scaleResult w r)) fts"
  using assms
proof (induction fts arbitrary: c)
  case Nil
  then show ?case by simp
next
  case (Cons r fts)
  from Cons.prems have fresh: "id (standard r) \<notin> fst ` set c" by auto
  have step: "addFts w r c = c @ [(id (standard r), scaleResult w r)]"
    unfolding addFts_def using fresh by (rule update_fresh)
  have d: "distinct (map (id \<circ> standard) fts)"
    using Cons.prems(1) by (simp only: list.map distinct.simps)
  have disj: "(id \<circ> standard) ` set fts
                \<inter> fst ` set (c @ [(id (standard r), scaleResult w r)]) = {}"
    using Cons.prems by auto
  show ?case
    using Cons.IH[OF d disj] step by simp
qed

lemma fold_addFts_Nil:
  assumes "distinct (map (id \<circ> standard) fts)"
  shows "fold (addFts w) fts [] = map (\<lambda>r. (id (standard r), scaleResult w r)) fts"
  using fold_addFts_fresh[OF assms, of "[]" w] by simp







lemma mapE_Inr_D:
  "mapE f xs = Inr ys \<Longrightarrow> list_all2 (\<lambda>x y. f x = Inr y) xs ys"
proof (induction xs arbitrary: ys)
  case Nil
  then show ?case by simp
next
  case (Cons x xs)
  then show ?case by (auto split: sum.splits)
qed

lemma distinct_ids_rows:
  assumes "distinct (map r_id rows)"
  shows "distinct (map r_id (sort_key k (filter P rows)))"
proof -
  from assms have "distinct rows" and "inj_on r_id (set rows)"
    by (simp_all add: distinct_map)
  then have "distinct (sort_key k (filter P rows))"
    and "inj_on r_id (set (sort_key k (filter P rows)))"
    by (auto intro: inj_on_subset)
  then show ?thesis by (simp add: distinct_map)
qed

lemma searchStandards_ids_distinct:
  assumes d: "distinct (map r_id (standards st))"
    and s: "searchStandards eng jp st query cat org = Inr fts"
  shows "distinct (map (id \<circ> standard) fts)"
proof (cases "emptyQuery query")
  case True
  let ?rows = "sort_key r_title (filter (holdsAll (filterConditions cat org)) (standards st))"
  let ?f = "\<lambda>row. case rowToStandard jp row of
                     Inl e \<Rightarrow> Inl e
                   | Inr s \<Rightarrow> Inr \<lparr> standard = s, relevanceScore = 1, matchedFields = [] \<rparr>"
  from s True have "mapE ?f ?rows = Inr fts" by (simp add: searchStandards_def)
  then have "list_all2 (\<lambda>x y. ?f x = Inr y) ?rows fts" by (rule mapE_Inr_D)
  then have "list_all2 (\<lambda>row r. r_id row = (id \<circ> standard) r) ?rows fts"
    by (rule list_all2_mono) (auto split: sum.splits dest: rowToStandard_fields)
  then have "map r_id ?rows = map (id \<circ> standard) fts" by (rule list_all2_map_eq)
  then show ?thesis using distinct_ids_rows[OF d] by metis
next
  case False
  let ?rows = "sort_key (bm25 eng query)
                  (filter (\<lambda>r. ftsMatch eng query r \<and> holdsAll (filterConditions cat org) r)
                          (standards st))"
  let ?f = "\<lambda>row. case rowToStandard jp row of
                     Inl e \<Rightarrow> Inl e
                   | Inr s \<Rightarrow> Inr \<lparr> standard = s, relevanceScore = \<bar>bm25 eng query row\<bar>,
                                     matchedFields = getMatchedFields row query \<rparr>"
  from s False have "mapE ?f ?rows = Inr fts"
    by (simp add: searchStandards_def split: option.splits)
  then have "list_all2 (\<lambda>x y. ?f x = Inr y) ?rows fts" by (rule mapE_Inr_D)
  then have "list_all2 (\<lambda>row r. r_id row = (id \<circ> standard) r) ?rows fts"
    by (rule list_all2_mono) (auto split: sum.splits dest: rowToStandard_fields)
  then have "map r_id ?rows = map (id \<circ> standard) fts" by (rule list_all2_map_eq)
  then show ?thesis using distinct_ids_rows[OF d] by metis
qed



lemma fuse_fts_only:
  assumes "distinct (map (id \<circ> standard) fts)"
  shows "fuse w jp fts [] = Inr (map (\<lambda>r. (id (standard r), scaleResult w r)) fts)"
  by (simp add: fuse_def fold_addFts_Nil[OF assms])







lemma slice0_nonempty:
  assumes "xs \<noteq> []" and "1 \<le> n"
  shows "slice0 n xs \<noteq> []"
  using assms by (auto simp: slice0_def)

text \<open>
  Claim C2, as amended. Let the lexical search succeed with the results \<open>fts\<close>, on a
  store whose ids are distinct. When the semantic search throws, \<open>hybridSearch\<close>
  returns the lexical results with each score multiplied by \<open>1 - w\<close>, sorted by
  falling score and cut by \<open>slice(0, maxResults)\<close>; this list is not empty when the
  lexical results are not empty and \<open>maxResults\<close> is at least 1. When the fusion throws,
  \<open>hybridSearch\<close> returns the lexical results as they are. In every case it returns a
  list and no error.
\<close>

theorem semantic_degradation:
  assumes pk: "distinct (map r_id (standards st))"
    and lex: "searchStandards eng jp st query cat org = Inr fts"
  shows "(\<forall>e. semanticSearch query (semanticOptions cat org options) = Inl e \<longrightarrow>
            hybridSearch eng jp semanticSearch st query cat org options
              = Inr (slice0 (maxResultsOf options)
                       (sortByScoreDesc
                          (map (\<lambda>r. r \<lparr> relevanceScore :=
                                          relevanceScore r * (1 - weightOf options) \<rparr>) fts)))
            \<and> (fts \<noteq> [] \<and> 1 \<le> maxResultsOf options \<longrightarrow>
                 hybridSearch eng jp semanticSearch st query cat org options \<noteq> Inr []))
      \<and> (\<forall>vecs e. semanticSearch query (semanticOptions cat org options) = Inr vecs
            \<and> fuse (weightOf options) jp fts vecs = Inl e \<longrightarrow>
            hybridSearch eng jp semanticSearch st query cat org options = Inr fts)
      \<and> (\<exists>rs. hybridSearch eng jp semanticSearch st query cat org options = Inr rs)"
proof -
  let ?w = "weightOf options"
  let ?scaled = "map (\<lambda>r. r \<lparr> relevanceScore := relevanceScore r * (1 - ?w) \<rparr>) fts"
  have dl: "distinct (map (id \<circ> standard) fts)"
    by (rule searchStandards_ids_distinct[OF pk lex])
  have f0: "fuse ?w jp fts [] = Inr (map (\<lambda>r. (id (standard r), scaleResult ?w r)) fts)"
    by (rule fuse_fts_only[OF dl])
  have sc: "map snd (map (\<lambda>r. (id (standard r), scaleResult ?w r)) fts) = ?scaled"
    by (simp add: scaleResult_def comp_def)
  have a: "\<forall>e. semanticSearch query (semanticOptions cat org options) = Inl e \<longrightarrow>
            hybridSearch eng jp semanticSearch st query cat org options
              = Inr (slice0 (maxResultsOf options) (sortByScoreDesc ?scaled))
            \<and> (fts \<noteq> [] \<and> 1 \<le> maxResultsOf options \<longrightarrow>
                 hybridSearch eng jp semanticSearch st query cat org options \<noteq> Inr [])"
  proof (intro allI impI)
    fix e assume e: "semanticSearch query (semanticOptions cat org options) = Inl e"
    have "hybridSearch eng jp semanticSearch st query cat org options
              = Inr (slice0 (maxResultsOf options)
                       (sortByScoreDesc
                          (map snd (map (\<lambda>r. (id (standard r), scaleResult ?w r)) fts))))"
      unfolding hybridSearch_def lex e by (simp only: sum.case Let_def f0)
    then have h: "hybridSearch eng jp semanticSearch st query cat org options
              = Inr (slice0 (maxResultsOf options) (sortByScoreDesc ?scaled))"
      unfolding sc .
    have "fts \<noteq> [] \<and> 1 \<le> maxResultsOf options \<longrightarrow>
            slice0 (maxResultsOf options) (sortByScoreDesc ?scaled) \<noteq> []"
    proof
      assume n: "fts \<noteq> [] \<and> 1 \<le> maxResultsOf options"
      have "length (sortByScoreDesc ?scaled) = length fts"
        by (simp add: sortByScoreDesc_def)
      with n have "sortByScoreDesc ?scaled \<noteq> []"
        by auto
      with n show "slice0 (maxResultsOf options) (sortByScoreDesc ?scaled) \<noteq> []"
        by (simp add: slice0_nonempty)
    qed
    with h show "hybridSearch eng jp semanticSearch st query cat org options
              = Inr (slice0 (maxResultsOf options) (sortByScoreDesc ?scaled))
            \<and> (fts \<noteq> [] \<and> 1 \<le> maxResultsOf options \<longrightarrow>
                 hybridSearch eng jp semanticSearch st query cat org options \<noteq> Inr [])"
      by simp
  qed
  have b: "\<forall>vecs e. semanticSearch query (semanticOptions cat org options) = Inr vecs
            \<and> fuse ?w jp fts vecs = Inl e \<longrightarrow>
            hybridSearch eng jp semanticSearch st query cat org options = Inr fts"
  proof (intro allI impI)
    fix vecs e
    assume h: "semanticSearch query (semanticOptions cat org options) = Inr vecs
            \<and> fuse ?w jp fts vecs = Inl e"
    then have v: "semanticSearch query (semanticOptions cat org options) = Inr vecs"
      and f: "fuse ?w jp fts vecs = Inl e"
      by simp_all
    show "hybridSearch eng jp semanticSearch st query cat org options = Inr fts"
      unfolding hybridSearch_def lex v by (simp only: sum.case Let_def f lex)
  qed
  have c: "\<exists>rs. hybridSearch eng jp semanticSearch st query cat org options = Inr rs"
  proof (cases "semanticSearch query (semanticOptions cat org options)")
    case (Inl e)
    with a show ?thesis by blast
  next
    case (Inr vecs)
    show ?thesis
    proof (cases "fuse ?w jp fts vecs")
      case (Inl e)
      with b Inr show ?thesis by blast
    next
      case fu: (Inr combined)
      show ?thesis
        unfolding hybridSearch_def lex Inr by (simp only: sum.case Let_def fu) simp
    qed
  qed
  from a b c show ?thesis by blast
qed

text \<open>
  An unavailable semantic index, and a semantic index whose answer has no metadata,
  on the query \<open>API OAuth\<close>.
\<close>

theorem semantic_degradation_witness:
  "distinct (map r_id (standards testStore))
   \<and> searchStandards tokenEngine testJsonParse testStore ''API OAuth'' None None
       = Inr [\<lparr> standard = apiSecurityStandard, relevanceScore = 6, matchedFields = [] \<rparr>]
   \<and> failingSemanticSearch ''API OAuth'' (semanticOptions None None defaultOptions)
       = Inl (VectorError ''Failed to initialize vector storage service'')
   \<and> hybridSearch tokenEngine testJsonParse failingSemanticSearch testStore
        ''API OAuth'' None None defaultOptions
       = Inr [\<lparr> standard = apiSecurityStandard, relevanceScore = 12 / 5, matchedFields = [] \<rparr>]
   \<and> fuse (weightOf defaultOptions) testJsonParse
        [\<lparr> standard = apiSecurityStandard, relevanceScore = 6, matchedFields = [] \<rparr>]
        [\<lparr> v_id = ''unknown-1'', v_score = 0.7, v_metadata = None, v_document = [] \<rparr>]
       = Inl TypeError
   \<and> hybridSearch tokenEngine testJsonParse brokenSemanticSearch testStore
        ''API OAuth'' None None defaultOptions
       = Inr [\<lparr> standard = apiSecurityStandard, relevanceScore = 6, matchedFields = [] \<rparr>]"
proof -
  let ?api = "\<lparr> standard = apiSecurityStandard, relevanceScore = 6, matchedFields = [] \<rparr>"
  let ?bad = "\<lparr> v_id = ''unknown-1'', v_score = 0.7, v_metadata = None, v_document = [] \<rparr>"
  note pk = distinct_testStore
  note lex = search_apiOAuth
  have fl: "failingSemanticSearch ''API OAuth'' (semanticOptions None None defaultOptions)
       = Inl (VectorError ''Failed to initialize vector storage service'')"
    by (simp add: failingSemanticSearch_def)
  have br: "brokenSemanticSearch ''API OAuth'' (semanticOptions None None defaultOptions)
       = Inr [?bad]"
    by (simp add: brokenSemanticSearch_def)
  have fu: "fuse (weightOf defaultOptions) testJsonParse [?api] [?bad] = Inl TypeError"
    by (simp add: fuse_def addFts_def addVector_def synthesize_def apiSecurityStandard_def)
  have sl: "slice0 (maxResultsOf defaultOptions)
              (sortByScoreDesc
                 (map (\<lambda>r. r \<lparr> relevanceScore :=
                                 relevanceScore r * (1 - weightOf defaultOptions) \<rparr>) [?api]))
            = [\<lparr> standard = apiSecurityStandard, relevanceScore = 12 / 5, matchedFields = [] \<rparr>]"
    by (simp add: slice0_def sortByScoreDesc_def weightOf_def maxResultsOf_def defaultOptions_def)
  have a: "hybridSearch tokenEngine testJsonParse failingSemanticSearch testStore
        ''API OAuth'' None None defaultOptions
       = Inr [\<lparr> standard = apiSecurityStandard, relevanceScore = 12 / 5, matchedFields = [] \<rparr>]"
    using semantic_degradation
            [OF pk lex, where semanticSearch = failingSemanticSearch and options = defaultOptions]
          fl sl
    by simp
  have b: "hybridSearch tokenEngine testJsonParse brokenSemanticSearch testStore
        ''API OAuth'' None None defaultOptions = Inr [?api]"
    using semantic_degradation
            [OF pk lex, where semanticSearch = brokenSemanticSearch and options = defaultOptions]
          br fu
    by blast
  from pk lex fl a fu b show ?thesis by blast
qed

text \<open>
  Claim C2 as stated fails: with the semantic index unavailable, \<open>hybridSearch\<close> does
  not return the list that the lexical search returns. The score 6 of the lexical
  result becomes 12/5 under the default weight, and with \<open>maxResults = 1\<close> one of the
  two lexical results of the empty query is returned.
\<close>

theorem semantic_degradation_counterexample:
  "searchStandards tokenEngine testJsonParse testStore ''API OAuth'' None None
     = Inr [\<lparr> standard = apiSecurityStandard, relevanceScore = 6, matchedFields = [] \<rparr>]
   \<and> failingSemanticSearch ''API OAuth'' (semanticOptions None None defaultOptions)
       = Inl (VectorError ''Failed to initialize vector storage service'')
   \<and> hybridSearch tokenEngine testJsonParse failingSemanticSearch testStore
        ''API OAuth'' None None defaultOptions
       = Inr [\<lparr> standard = apiSecurityStandard, relevanceScore = 12 / 5, matchedFields = [] \<rparr>]
   \<and> hybridSearch tokenEngine testJsonParse failingSemanticSearch testStore
        ''API OAuth'' None None defaultOptions
       \<noteq> searchStandards tokenEngine testJsonParse testStore ''API OAuth'' None None
   \<and> searchStandards tokenEngine testJsonParse testStore [] None None
       = Inr [\<lparr> standard = apiSecurityStandard, relevanceScore = 1, matchedFields = [] \<rparr>,
              \<lparr> standard = wcagStandard, relevanceScore = 1, matchedFields = [] \<rparr>]
   \<and> hybridSearch tokenEngine testJsonParse failingSemanticSearch testStore
        [] None None (defaultOptions \<lparr> maxResults := Some 1 \<rparr>)
       = Inr [\<lparr> standard = apiSecurityStandard, relevanceScore = 2 / 5, matchedFields = [] \<rparr>]"
proof -
  note a = search_apiOAuth
  have b: "failingSemanticSearch q opts
       = Inl (VectorError ''Failed to initialize vector storage service'')" for q opts
    by (simp add: failingSemanticSearch_def)
  have w: "weightOf defaultOptions = 3 / 5" "maxResultsOf defaultOptions = 20"
    "weightOf (defaultOptions \<lparr> maxResults := Some 1 \<rparr>) = 3 / 5"
    "maxResultsOf (defaultOptions \<lparr> maxResults := Some 1 \<rparr>) = 1"
    by (simp_all add: weightOf_def maxResultsOf_def defaultOptions_def)
  have fa: "fuse (3 / 5) testJsonParse
              [\<lparr> standard = apiSecurityStandard, relevanceScore = 6, matchedFields = [] \<rparr>] []
            = Inr [(''api-security-1'',
                    \<lparr> standard = apiSecurityStandard, relevanceScore = 12 / 5,
                      matchedFields = [] \<rparr>)]"
    by (simp add: fuse_def addFts_def scaleResult_def apiSecurityStandard_def)
  have c: "hybridSearch tokenEngine testJsonParse failingSemanticSearch testStore
        ''API OAuth'' None None defaultOptions
       = Inr [\<lparr> standard = apiSecurityStandard, relevanceScore = 12 / 5, matchedFields = [] \<rparr>]"
    unfolding hybridSearch_def a b w
    by (simp add: fa slice0_def sortByScoreDesc_def)
  have d: "hybridSearch tokenEngine testJsonParse failingSemanticSearch testStore
        ''API OAuth'' None None defaultOptions
       \<noteq> searchStandards tokenEngine testJsonParse testStore ''API OAuth'' None None"
    unfolding a c by simp
  note e = search_blank
  have fe: "fuse (3 / 5) testJsonParse
              [\<lparr> standard = apiSecurityStandard, relevanceScore = 1, matchedFields = [] \<rparr>,
               \<lparr> standard = wcagStandard, relevanceScore = 1, matchedFields = [] \<rparr>] []
            = Inr [(''api-security-1'',
                    \<lparr> standard = apiSecurityStandard, relevanceScore = 2 / 5,
                      matchedFields = [] \<rparr>),
                   (''accessibility-wcag-1'',
                    \<lparr> standard = wcagStandard, relevanceScore = 2 / 5,
                      matchedFields = [] \<rparr>)]"
    by (simp add: fuse_def addFts_def scaleResult_def apiSecurityStandard_def wcagStandard_def)
  have f: "hybridSearch tokenEngine testJsonParse failingSemanticSearch testStore
        [] None None (defaultOptions \<lparr> maxResults := Some 1 \<rparr>)
       = Inr [\<lparr> standard = apiSecurityStandard, relevanceScore = 2 / 5, matchedFields = [] \<rparr>]"
    unfolding hybridSearch_def e b w
    by (simp add: fe slice0_def sortByScoreDesc_def)
  from a b c d e f show ?thesis by blast
qed

end
